theory Spec2Isabelle
  imports Complex_Main
begin

section \<open>Python values and exceptions\<close>

text \<open>
  The retrieval core (\<^verbatim>\<open>backend/rag_config.py\<close>, \<^verbatim>\<open>backend/enhanced_rag.py\<close>) is written
  in Python. Exceptions are values of \<open>error\<close>; a method that can raise returns
  \<open>error + 'a\<close> with \<open>Inl\<close> for the exception. Floats are modelled as reals (no rounding,
  no NaN); a \<open>char\<close> stands for one code point of the Latin-1 range.
\<close>

datatype error = TypeError | ServiceError string

text \<open>Dynamically typed values: what \<^verbatim>\<open>json.dumps\<close> accepts. A dict has string keys and keeps
  its insertion order.\<close>

datatype pyval =
    PNone
  | PBool bool
  | PInt int
  | PFloat real
  | PStr string
  | PList "pyval list"
  | PDict "(string \<times> pyval) list"

text \<open>\<^verbatim>\<open>d.get(key, default)\<close> on a dict.\<close>

definition dict_get :: "(string \<times> pyval) list \<Rightarrow> string \<Rightarrow> pyval \<Rightarrow> pyval" where
  "dict_get d k dflt = (case map_of d k of Some v \<Rightarrow> v | None \<Rightarrow> dflt)"

text \<open>Truth value of an object in a condition.\<close>

fun truthy :: "pyval \<Rightarrow> bool" where
  "truthy PNone = False"
| "truthy (PBool b) = b"
| "truthy (PInt i) = (i \<noteq> 0)"
| "truthy (PFloat r) = (r \<noteq> 0)"
| "truthy (PStr s) = (s \<noteq> [])"
| "truthy (PList xs) = (xs \<noteq> [])"
| "truthy (PDict kvs) = (kvs \<noteq> [])"

section \<open>\<^verbatim>\<open>rag_config.py\<close>: ProductionRAGConfig\<close>

record ProductionRAGConfig =
  embedding_model :: string
  embedding_dimensions :: nat
  base_collection_name :: string
  chunk_size :: int
  chunk_overlap :: int
  max_retrieval_results :: int

text \<open>The values \<^verbatim>\<open>__init__\<close> assigns.\<close>

definition ProductionRAGConfig_init :: ProductionRAGConfig where
  "ProductionRAGConfig_init =
     \<lparr> embedding_model = ''text-embedding-3-large'',
       embedding_dimensions = 3072,
       base_collection_name = ''immigration_docs'',
       chunk_size = 500,
       chunk_overlap = 50,
       max_retrieval_results = 10 \<rparr>"

subsection \<open>generate_embedding\<close>

text \<open>
  The OpenAI call \<^verbatim>\<open>client.embeddings.create(input=text, model=...)\<close> followed by
  \<^verbatim>\<open>response.data[0].embedding\<close> is an external service: a parameter \<open>create\<close> that takes
  the input and the model name and either raises or yields the vector.
\<close>

type_synonym embeddings_api = "string \<Rightarrow> string \<Rightarrow> error + real list"

definition generate_embedding ::
  "ProductionRAGConfig \<Rightarrow> embeddings_api \<Rightarrow> string \<Rightarrow> error + real list" where
  "generate_embedding self create text =
     (let text = (if length text > 8000 then take 8000 text else text) in
      case create text (embedding_model self) of
        Inr embedding \<Rightarrow> Inr embedding
      | Inl e \<Rightarrow> Inr (replicate (embedding_dimensions self) 0))"

subsection \<open>smart_chunk_text\<close>

text \<open>\<^verbatim>\<open>str.isspace\<close> on the code points below 256.\<close>

definition isspace :: "char \<Rightarrow> bool" where
  "isspace c = ((of_char c :: nat) \<in> {9, 10, 11, 12, 13, 28, 29, 30, 31, 32, 133, 160})"

definition strip :: "string \<Rightarrow> string" where
  "strip s = rev (dropWhile isspace (rev (dropWhile isspace s)))"

text \<open>\<^verbatim>\<open>text.split()\<close>: the maximal runs of non-whitespace characters; \<open>cur\<close> is the run
  being read, reversed.\<close>

fun split_from :: "string \<Rightarrow> string \<Rightarrow> string list" where
  "split_from cur [] = (if cur = [] then [] else [rev cur])"
| "split_from cur (c # cs) =
     (if isspace c
      then (if cur = [] then split_from [] cs else rev cur # split_from [] cs)
      else split_from (c # cur) cs)"

definition split :: "string \<Rightarrow> string list" where
  "split s = split_from [] s"

text \<open>\<^verbatim>\<open>sep.join(words)\<close>.\<close>

fun join :: "string \<Rightarrow> string list \<Rightarrow> string" where
  "join sep [] = []"
| "join sep [w] = w"
| "join sep (w # ws) = w @ sep @ join sep ws"

text \<open>\<^verbatim>\<open>xs[i:j]\<close>: a negative index counts from the end, and both ends are clamped.\<close>

definition slice_index :: "nat \<Rightarrow> int \<Rightarrow> nat" where
  "slice_index n i = (if i < 0 then nat (max 0 (int n + i)) else min n (nat i))"

definition py_slice :: "'a list \<Rightarrow> int \<Rightarrow> int \<Rightarrow> 'a list" where
  "py_slice xs i j =
     (let a = slice_index (length xs) i; b = slice_index (length xs) j
      in take (b - a) (drop a xs))"

text \<open>\<^verbatim>\<open>str(n)\<close> for an integer, as the f-strings format it.\<close>

fun str_nat :: "nat \<Rightarrow> string" where
  "str_nat n =
     (if n < 10 then [char_of (48 + n)]
      else str_nat (n div 10) @ [char_of (48 + n mod 10)])"

definition str_int :: "int \<Rightarrow> string" where
  "str_int i = (if i < 0 then CHR ''-'' # str_nat (nat (- i)) else str_nat (nat i))"

text \<open>A chunk dictionary. The single-chunk branch writes no \<^verbatim>\<open>start_word\<close> and
  \<^verbatim>\<open>end_word\<close>; the loop writes \<^verbatim>\<open>total_chunks\<close> only after it has finished.\<close>

record chunk =
  ch_text :: string
  ch_chunk_id :: string
  ch_document_id :: string
  ch_title :: string
  ch_chunk_index :: int
  ch_total_chunks :: "int option"
  ch_word_count :: int
  ch_start_word :: "int option"
  ch_end_word :: "int option"

text \<open>
  The \<^verbatim>\<open>while start_idx < len(words)\<close> loop. After a chunk is appended the code sets
  \<^verbatim>\<open>start_idx = end_idx - self.chunk_overlap\<close> and then leaves the loop when
  \<^verbatim>\<open>start_idx >= end_idx - self.chunk_overlap\<close>.
\<close>

function chunk_loop ::
  "ProductionRAGConfig \<Rightarrow> string list \<Rightarrow> string \<Rightarrow> string \<Rightarrow> int \<Rightarrow> int \<Rightarrow> chunk list
     \<Rightarrow> chunk list" where
  "chunk_loop self words document_id title start_idx chunk_index chunks =
     (if start_idx < int (length words) then
        (let end_idx = min (start_idx + chunk_size self) (int (length words));
             chunk_words = py_slice words start_idx end_idx;
             chunk_text = join '' '' chunk_words;
             context_prefix =
               (if title \<noteq> [] then ''Document: '' @ title @ [CHR 0x0A, CHR 0x0A] else []);
             full_chunk_text = context_prefix @ chunk_text;
             chunks' = chunks @
               [\<lparr> ch_text = full_chunk_text,
                  ch_chunk_id = document_id @ ''_chunk_'' @ str_int chunk_index,
                  ch_document_id = document_id,
                  ch_title = title,
                  ch_chunk_index = chunk_index,
                  ch_total_chunks = None,
                  ch_word_count = int (length chunk_words),
                  ch_start_word = Some start_idx,
                  ch_end_word = Some end_idx \<rparr>];
             start_idx' = end_idx - chunk_overlap self;
             chunk_index' = chunk_index + 1
         in if start_idx' \<ge> end_idx - chunk_overlap self then chunks'
            else chunk_loop self words document_id title start_idx' chunk_index' chunks')
      else chunks)"
  by pat_completeness auto
termination
  by (relation "{}") simp_all

definition smart_chunk_text ::
  "ProductionRAGConfig \<Rightarrow> string \<Rightarrow> string \<Rightarrow> string \<Rightarrow> chunk list" where
  "smart_chunk_text self text document_id title =
     (if strip text = [] then []
      else
        (let text = strip text;
             words = split text
         in if int (length words) \<le> chunk_size self then
              [\<lparr> ch_text = text,
                 ch_chunk_id = document_id @ ''_chunk_0'',
                 ch_document_id = document_id,
                 ch_title = title,
                 ch_chunk_index = 0,
                 ch_total_chunks = Some 1,
                 ch_word_count = int (length words),
                 ch_start_word = None,
                 ch_end_word = None \<rparr>]
            else
              (let chunks = chunk_loop self words document_id title 0 0 []
               in map (\<lambda>chunk. chunk\<lparr>ch_total_chunks := Some (int (length chunks))\<rparr>) chunks)))"

section \<open>\<^verbatim>\<open>enhanced_rag.py\<close>: EnhancedChunk\<close>

text \<open>The dataclass, with the types of its annotations. The list and dict fields default to
  \<^verbatim>\<open>None\<close> and \<^verbatim>\<open>__post_init__\<close> replaces \<^verbatim>\<open>None\<close> by the empty container, so a
  constructed chunk always holds containers there.\<close>

record EnhancedChunk =
  content :: string
  source_url :: string
  document_title :: string
  chunk_type :: string
  section_title :: string
  subsection_title :: string
  chunk_index :: int
  confidence_score :: real
  form_numbers :: "string list"
  visa_types :: "string list"
  requirements :: "string list"
  fees :: "string list"
  countries :: "string list"
  relationships :: "(string \<times> pyval) list list"
  dependencies :: "(string \<times> string list) list"
  process_flows :: "string list list"
  temporal_info :: "(string \<times> pyval) list list"
  is_current :: bool
  freshness_score :: real
  effective_date :: "string option"
  expiration_date :: "string option"

definition str_list :: "string list \<Rightarrow> pyval" where
  "str_list xs = PList (map PStr xs)"

definition opt_str :: "string option \<Rightarrow> pyval" where
  "opt_str x = (case x of None \<Rightarrow> PNone | Some s \<Rightarrow> PStr s)"

text \<open>\<^verbatim>\<open>dataclasses.asdict\<close>: one entry per field, in the order of declaration.\<close>

definition asdict :: "EnhancedChunk \<Rightarrow> (string \<times> pyval) list" where
  "asdict c =
     [(''content'', PStr (content c)),
      (''source_url'', PStr (source_url c)),
      (''document_title'', PStr (document_title c)),
      (''chunk_type'', PStr (chunk_type c)),
      (''section_title'', PStr (section_title c)),
      (''subsection_title'', PStr (subsection_title c)),
      (''chunk_index'', PInt (chunk_index c)),
      (''confidence_score'', PFloat (confidence_score c)),
      (''form_numbers'', str_list (form_numbers c)),
      (''visa_types'', str_list (visa_types c)),
      (''requirements'', str_list (requirements c)),
      (''fees'', str_list (fees c)),
      (''countries'', str_list (countries c)),
      (''relationships'', PList (map PDict (relationships c))),
      (''dependencies'', PDict (map (\<lambda>kv. (fst kv, str_list (snd kv))) (dependencies c))),
      (''process_flows'', PList (map str_list (process_flows c))),
      (''temporal_info'', PList (map PDict (temporal_info c))),
      (''is_current'', PBool (is_current c)),
      (''freshness_score'', PFloat (freshness_score c)),
      (''effective_date'', opt_str (effective_date c)),
      (''expiration_date'', opt_str (expiration_date c))]"

text \<open>\<^verbatim>\<open>_make_serializable\<close>: dicts and lists are rebuilt element by element; every other
  value of \<open>pyval\<close> passes \<^verbatim>\<open>json.dumps\<close> and is returned as it is.\<close>

fun make_serializable :: "pyval \<Rightarrow> pyval" where
  "make_serializable (PDict kvs) =
     PDict (map (\<lambda>kv. (fst kv, make_serializable (snd kv))) kvs)"
| "make_serializable (PList xs) = PList (map make_serializable xs)"
| "make_serializable obj = obj"

section \<open>The external services\<close>

text \<open>A point handed to the vector store, and a scored match that comes back.\<close>

record point =
  pt_id :: int
  pt_vector :: "real list"
  pt_payload :: pyval

record scored_point =
  sp_score :: real
  sp_payload :: "(string \<times> pyval) list"

text \<open>
  \<open>EnhancedRAGConfig\<close> holds the base configuration, the name of its collection and the
  collaborators it calls: the embeddings endpoint, the vector store client (\<open>'s\<close> is the
  state of the store; \<^verbatim>\<open>upsert\<close> may raise and may change it, \<^verbatim>\<open>search\<close> may raise) and the
  two queries of the relationship mapper that \<^verbatim>\<open>get_entity_insights\<close> uses.
\<close>

record 's EnhancedRAGConfig =
  base_rag :: ProductionRAGConfig
  collection_name :: string
  embeddings_create :: embeddings_api
  client_upsert :: "string \<Rightarrow> point list \<Rightarrow> 's \<Rightarrow> error option \<times> 's"
  client_search ::
    "string \<Rightarrow> real list \<Rightarrow> int \<Rightarrow> pyval \<Rightarrow> real \<Rightarrow> 's \<Rightarrow> error + scored_point list"
  get_entity_dependencies :: "string \<Rightarrow> pyval"
  get_process_flow :: "string \<Rightarrow> int \<Rightarrow> pyval"

section \<open>store_enhanced_chunks\<close>

text \<open>The loop \<^verbatim>\<open>for text in texts: embeddings.append(await generate_embedding(text))\<close>.\<close>

fun embed_texts :: "'s EnhancedRAGConfig \<Rightarrow> string list \<Rightarrow> error + real list list" where
  "embed_texts self [] = Inr []"
| "embed_texts self (text # texts) =
     (case generate_embedding (base_rag self) (embeddings_create self) text of
        Inl e \<Rightarrow> Inl e
      | Inr embedding \<Rightarrow>
          (case embed_texts self texts of
             Inl e \<Rightarrow> Inl e
           | Inr embeddings \<Rightarrow> Inr (embedding # embeddings)))"

text \<open>The loop over \<^verbatim>\<open>enumerate(zip(enhanced_chunks, embeddings))\<close> that prepares the
  points.\<close>

definition prepare_points :: "EnhancedChunk list \<Rightarrow> real list list \<Rightarrow> point list" where
  "prepare_points enhanced_chunks embeddings =
     map (\<lambda>(i, chunk, embedding).
            \<lparr> pt_id = int i,
              pt_vector = embedding,
              pt_payload = make_serializable (PDict (asdict chunk)) \<rparr>)
         (enumerate 0 (zip enhanced_chunks embeddings))"

text \<open>The whole body stands in one \<^verbatim>\<open>try\<close>: any exception gives \<^verbatim>\<open>False\<close>.\<close>

definition store_enhanced_chunks ::
  "'s EnhancedRAGConfig \<Rightarrow> EnhancedChunk list \<Rightarrow> 's \<Rightarrow> bool \<times> 's" where
  "store_enhanced_chunks self enhanced_chunks s =
     (let texts = map content enhanced_chunks in
      case embed_texts self texts of
        Inl e \<Rightarrow> (False, s)
      | Inr embeddings \<Rightarrow>
          (let points = prepare_points enhanced_chunks embeddings in
           case client_upsert self (collection_name self) points s of
             (None, s') \<Rightarrow> (True, s')
           | (Some e, s') \<Rightarrow> (False, s')))"

section \<open>semantic_search_enhanced\<close>

text \<open>\<^verbatim>\<open>_build_search_filter\<close>: one condition for each of the five keys it knows.\<close>

definition build_search_filter :: "(string \<times> pyval) list \<Rightarrow> pyval" where
  "build_search_filter filters =
     (let conditions = [];
          conditions =
            (case map_of filters ''form_numbers'' of
               Some v \<Rightarrow> conditions @
                 [PDict [(''key'', PStr ''form_numbers''), (''match'', PDict [(''any'', v)])]]
             | None \<Rightarrow> conditions);
          conditions =
            (case map_of filters ''visa_types'' of
               Some v \<Rightarrow> conditions @
                 [PDict [(''key'', PStr ''visa_types''), (''match'', PDict [(''any'', v)])]]
             | None \<Rightarrow> conditions);
          conditions =
            (case map_of filters ''chunk_type'' of
               Some v \<Rightarrow> conditions @
                 [PDict [(''key'', PStr ''chunk_type''), (''match'', PDict [(''value'', v)])]]
             | None \<Rightarrow> conditions);
          conditions =
            (case map_of filters ''current_only'' of
               Some v \<Rightarrow>
                 (if truthy v then conditions @
                    [PDict [(''key'', PStr ''is_current''),
                            (''match'', PDict [(''value'', PBool True)])]]
                  else conditions)
             | None \<Rightarrow> conditions);
          conditions =
            (case map_of filters ''min_freshness'' of
               Some v \<Rightarrow> conditions @
                 [PDict [(''key'', PStr ''freshness_score''), (''range'', PDict [(''gte'', v)])]]
             | None \<Rightarrow> conditions)
      in if conditions \<noteq> [] then PDict [(''must'', PList conditions)] else PNone)"

text \<open>One entry of the returned list.\<close>

record search_result =
  res_content :: pyval
  res_score :: real
  res_metadata :: "(string \<times> pyval) list"

definition enhanced_result :: "scored_point \<Rightarrow> search_result" where
  "enhanced_result result =
     (let payload = sp_payload result in
      \<lparr> res_content = dict_get payload ''content'' (PStr []),
        res_score = sp_score result,
        res_metadata =
          [(''document_title'', dict_get payload ''document_title'' (PStr [])),
           (''source_url'', dict_get payload ''source_url'' (PStr [])),
           (''chunk_type'', dict_get payload ''chunk_type'' (PStr [])),
           (''section_title'', dict_get payload ''section_title'' (PStr [])),
           (''form_numbers'', dict_get payload ''form_numbers'' (PList [])),
           (''visa_types'', dict_get payload ''visa_types'' (PList [])),
           (''requirements'', dict_get payload ''requirements'' (PList [])),
           (''fees'', dict_get payload ''fees'' (PList [])),
           (''relationships'', dict_get payload ''relationships'' (PList [])),
           (''process_flows'', dict_get payload ''process_flows'' (PList [])),
           (''temporal_info'', dict_get payload ''temporal_info'' (PList [])),
           (''is_current'', dict_get payload ''is_current'' (PBool True)),
           (''freshness_score'', dict_get payload ''freshness_score'' (PFloat 1)),
           (''confidence_score'', dict_get payload ''confidence_score'' (PFloat 1))] \<rparr>)"

text \<open>\<^verbatim>\<open>self._build_search_filter(filters) if filters else None\<close>. \<^verbatim>\<open>filters\<close> is a dict or
  \<^verbatim>\<open>None\<close>; \<^verbatim>\<open>if filters\<close> is false for \<^verbatim>\<open>None\<close> and for the empty dict.\<close>

definition search_filter_of :: "(string \<times> pyval) list option \<Rightarrow> pyval" where
  "search_filter_of filters =
     (case filters of
        None \<Rightarrow> PNone
      | Some d \<Rightarrow> (if d \<noteq> [] then build_search_filter d else PNone))"

text \<open>The body of the \<^verbatim>\<open>try\<close>.\<close>

definition search_try ::
  "'s EnhancedRAGConfig \<Rightarrow> string \<Rightarrow> int \<Rightarrow> (string \<times> pyval) list option \<Rightarrow> 's
     \<Rightarrow> error + search_result list" where
  "search_try self query limit filters s =
     (case generate_embedding (base_rag self) (embeddings_create self) query of
        Inl e \<Rightarrow> Inl e
      | Inr query_embedding \<Rightarrow>
          (let search_filter = search_filter_of filters
           in case client_search self (collection_name self) query_embedding limit
                     search_filter 0.5 s of
                Inl e \<Rightarrow> Inl e
              | Inr search_result \<Rightarrow> Inr (map enhanced_result search_result)))"

text \<open>\<^verbatim>\<open>except Exception\<close>: log and return the empty list.\<close>

definition semantic_search_enhanced ::
  "'s EnhancedRAGConfig \<Rightarrow> string \<Rightarrow> int \<Rightarrow> (string \<times> pyval) list option \<Rightarrow> 's
     \<Rightarrow> error + search_result list" where
  "semantic_search_enhanced self query limit filters s =
     (case search_try self query limit filters s of
        Inl e \<Rightarrow> Inr []
      | Inr enhanced_results \<Rightarrow> Inr enhanced_results)"

section \<open>get_entity_insights\<close>

text \<open>Sequencing of calls that may raise: the first exception ends the function.\<close>

definition bind_err :: "error + 'a \<Rightarrow> ('a \<Rightarrow> error + 'b) \<Rightarrow> error + 'b" where
  "bind_err m f = (case m of Inl e \<Rightarrow> Inl e | Inr x \<Rightarrow> f x)"

text \<open>Iterating over a value: a list gives its items, a string its characters, a dict its
  keys; anything else is not iterable.\<close>

fun py_iter :: "pyval \<Rightarrow> error + pyval list" where
  "py_iter (PList xs) = Inr xs"
| "py_iter (PStr s) = Inr (map (\<lambda>c. PStr [c]) s)"
| "py_iter (PDict kvs) = Inr (map (\<lambda>kv. PStr (fst kv)) kvs)"
| "py_iter v = Inl TypeError"

fun hashable :: "pyval \<Rightarrow> bool" where
  "hashable (PList xs) = False"
| "hashable (PDict kvs) = False"
| "hashable v = True"

text \<open>Python's equality on hashable values identifies \<^verbatim>\<open>True\<close>, \<^verbatim>\<open>1\<close> and \<^verbatim>\<open>1.0\<close>:
  \<open>py_key\<close> maps equal values to one representative.\<close>

fun py_key :: "pyval \<Rightarrow> pyval" where
  "py_key (PBool b) = PFloat (if b then 1 else 0)"
| "py_key (PInt i) = PFloat (of_int i)"
| "py_key v = v"

text \<open>A \<^verbatim>\<open>set\<close> is the list of its members, no two of them equal; the order in which Python
  iterates over it is not modelled.\<close>

definition set_add :: "pyval list \<Rightarrow> pyval \<Rightarrow> error + pyval list" where
  "set_add S x =
     (if \<not> hashable x then Inl TypeError
      else if py_key x \<in> set (map py_key S) then Inr S
      else Inr (S @ [x]))"

fun set_add_all :: "pyval list \<Rightarrow> pyval list \<Rightarrow> error + pyval list" where
  "set_add_all S [] = Inr S"
| "set_add_all S (x # xs) = bind_err (set_add S x) (\<lambda>S'. set_add_all S' xs)"

definition set_update :: "pyval list \<Rightarrow> pyval \<Rightarrow> error + pyval list" where
  "set_update S v = bind_err (py_iter v) (set_add_all S)"

definition list_extend :: "pyval list \<Rightarrow> pyval \<Rightarrow> error + pyval list" where
  "list_extend L v = bind_err (py_iter v) (\<lambda>xs. Inr (L @ xs))"

text \<open>The right operand of \<^verbatim>\<open>total_freshness += ...\<close>.\<close>

fun py_number :: "pyval \<Rightarrow> error + real" where
  "py_number (PBool b) = Inr (if b then 1 else 0)"
| "py_number (PInt i) = Inr (of_int i)"
| "py_number (PFloat r) = Inr r"
| "py_number v = Inl TypeError"

text \<open>\<^verbatim>\<open>entity.startswith((p1, p2, ...))\<close>.\<close>

definition startswith :: "string \<Rightarrow> string list \<Rightarrow> bool" where
  "startswith s prefixes = list_ex (\<lambda>p. take (length p) s = p) prefixes"

record insights =
  ins_entity :: string
  ins_total_mentions :: nat
  ins_related_forms :: "pyval list"
  ins_related_visas :: "pyval list"
  ins_requirements :: "pyval list"
  ins_fees :: "pyval list"
  ins_relationships :: "pyval list"
  ins_process_flows :: "pyval list"
  ins_temporal_info :: "pyval list"
  ins_average_freshness :: real
  ins_sources :: "pyval list"
  ins_dependencies :: pyval
  ins_complete_process_flows :: pyval

text \<open>The body of \<^verbatim>\<open>for result in results\<close>, on the insights and \<^verbatim>\<open>total_freshness\<close>.\<close>

definition aggregate_result ::
  "insights \<times> real \<Rightarrow> search_result \<Rightarrow> error + insights \<times> real" where
  "aggregate_result st result =
     (let insights = fst st;
          total_freshness = snd st;
          meta = res_metadata result
      in
      bind_err (set_update (ins_related_forms insights)
                  (dict_get meta ''form_numbers'' (PList []))) (\<lambda>forms.
      bind_err (set_update (ins_related_visas insights)
                  (dict_get meta ''visa_types'' (PList []))) (\<lambda>visas.
      bind_err (set_update (ins_requirements insights)
                  (dict_get meta ''requirements'' (PList []))) (\<lambda>reqs.
      bind_err (set_update (ins_fees insights)
                  (dict_get meta ''fees'' (PList []))) (\<lambda>fs.
      bind_err (set_add (ins_sources insights)
                  (dict_get meta ''source_url'' (PStr []))) (\<lambda>srcs.
      bind_err (list_extend (ins_relationships insights)
                  (dict_get meta ''relationships'' (PList []))) (\<lambda>rels.
      bind_err (list_extend (ins_process_flows insights)
                  (dict_get meta ''process_flows'' (PList []))) (\<lambda>flows.
      bind_err (list_extend (ins_temporal_info insights)
                  (dict_get meta ''temporal_info'' (PList []))) (\<lambda>temporal.
      bind_err (py_number (dict_get meta ''freshness_score'' (PFloat 1))) (\<lambda>freshness.
        Inr (insights
               \<lparr> ins_related_forms := forms,
                 ins_related_visas := visas,
                 ins_requirements := reqs,
                 ins_fees := fs,
                 ins_relationships := rels,
                 ins_process_flows := flows,
                 ins_temporal_info := temporal,
                 ins_sources := srcs \<rparr>,
             total_freshness + freshness)))))))))))"

fun aggregate_results ::
  "insights \<times> real \<Rightarrow> search_result list \<Rightarrow> error + insights \<times> real" where
  "aggregate_results st [] = Inr st"
| "aggregate_results st (result # results) =
     bind_err (aggregate_result st result) (\<lambda>st'. aggregate_results st' results)"

text \<open>The filter \<^verbatim>\<open>get_entity_insights\<close> builds from the entity's prefix.\<close>

definition entity_filter_of :: "string \<Rightarrow> (string \<times> pyval) list option" where
  "entity_filter_of entity =
     (let is_form = startswith entity [''I-'', ''N-'', ''DS-''];
          entity_filter =
            [(''form_numbers'', if is_form then PList [PStr entity] else PList []),
             (''visa_types'', if \<not> is_form then PList [PStr entity] else PList [])]
      in if \<not> list_ex truthy (map snd entity_filter) then None else Some entity_filter)"

definition get_entity_insights :: "'s EnhancedRAGConfig \<Rightarrow> string \<Rightarrow> 's \<Rightarrow> error + insights" where
  "get_entity_insights self entity s =
     bind_err (semantic_search_enhanced self (''information about '' @ entity) 10
                 (entity_filter_of entity) s) (\<lambda>results.
     (let insights =
            \<lparr> ins_entity = entity,
              ins_total_mentions = length results,
              ins_related_forms = [],
              ins_related_visas = [],
              ins_requirements = [],
              ins_fees = [],
              ins_relationships = [],
              ins_process_flows = [],
              ins_temporal_info = [],
              ins_average_freshness = 0,
              ins_sources = [],
              ins_dependencies = PNone,
              ins_complete_process_flows = PNone \<rparr>
      in
      bind_err (aggregate_results (insights, 0) results) (\<lambda>st.
        Inr ((fst st)
               \<lparr> ins_average_freshness :=
                   (if results \<noteq> [] then snd st / real (length results) else 0),
                 ins_dependencies := get_entity_dependencies self entity,
                 ins_complete_process_flows := get_process_flow self entity 3 \<rparr>))))"

section \<open>The vector store's side of the contract\<close>

text \<open>
  Modelled from the spec: the vector store is a collaborator outside the repository; its
  filter predicates are fixed only by section 6 of the specification (equality and
  set membership on payload fields, a numeric range). \<open>condition_holds\<close> reads one
  condition of the shape \<^verbatim>\<open>_build_search_filter\<close> writes; a field that holds a list matches a
  value it contains.
\<close>

definition field_matches :: "pyval \<Rightarrow> pyval \<Rightarrow> bool" where
  "field_matches field v =
     (field = v \<or> (case field of PList xs \<Rightarrow> v \<in> set xs | _ \<Rightarrow> False))"

definition match_holds :: "(string \<times> pyval) list \<Rightarrow> pyval \<Rightarrow> bool" where
  "match_holds m field =
     (case map_of m ''value'' of
        Some v \<Rightarrow> field_matches field v
      | None \<Rightarrow>
          (case map_of m ''any'' of
             Some (PList vs) \<Rightarrow> list_ex (field_matches field) vs
           | _ \<Rightarrow> False))"

definition range_holds :: "(string \<times> pyval) list \<Rightarrow> pyval \<Rightarrow> bool" where
  "range_holds r field =
     (case map_of r ''gte'' of
        Some lo \<Rightarrow>
          (case (py_number field, py_number lo) of
             (Inr x, Inr l) \<Rightarrow> l \<le> x
           | _ \<Rightarrow> False)
      | None \<Rightarrow> False)"

definition condition_holds :: "pyval \<Rightarrow> (string \<times> pyval) list \<Rightarrow> bool" where
  "condition_holds c payload =
     (case c of
        PDict cd \<Rightarrow>
          (case map_of cd ''key'' of
             Some (PStr k) \<Rightarrow>
               (case map_of payload k of
                  None \<Rightarrow> False
                | Some field \<Rightarrow>
                    (case map_of cd ''match'' of
                       Some (PDict m) \<Rightarrow> match_holds m field
                     | _ \<Rightarrow>
                         (case map_of cd ''range'' of
                            Some (PDict r) \<Rightarrow> range_holds r field
                          | _ \<Rightarrow> False)))
           | _ \<Rightarrow> False)
      | _ \<Rightarrow> False)"

definition filter_holds :: "pyval \<Rightarrow> (string \<times> pyval) list \<Rightarrow> bool" where
  "filter_holds flt payload =
     (case flt of
        PDict f \<Rightarrow>
          (case map_of f ''must'' of
             Some (PList conditions) \<Rightarrow> list_all (\<lambda>c. condition_holds c payload) conditions
           | _ \<Rightarrow> True)
      | _ \<Rightarrow> True)"

text \<open>A store honours the filter when every match it returns satisfies the filter it was
  given.\<close>

definition honours_filter ::
  "(string \<Rightarrow> real list \<Rightarrow> int \<Rightarrow> pyval \<Rightarrow> real \<Rightarrow> 's \<Rightarrow> error + scored_point list) \<Rightarrow> bool" where
  "honours_filter search =
     (\<forall>coll vec limit flt threshold s hits.
        search coll vec limit flt threshold s = Inr hits \<longrightarrow>
        list_all (\<lambda>h. filter_holds flt (sp_payload h)) hits)"

subsection \<open>An in-memory store\<close>

text \<open>
  The store used in the examples below: its state is the list of the points it holds.
  \<^verbatim>\<open>upsert\<close> replaces the point of the same id or adds the point; \<^verbatim>\<open>search\<close> scores every
  point by the inner product with the query vector, keeps the points that reach the
  threshold and satisfy the filter, ranks them by descending score (points of equal score
  stay in the order of insertion) and returns the first \<open>limit\<close>.
\<close>

definition dot :: "real list \<Rightarrow> real list \<Rightarrow> real" where
  "dot u v = sum_list (map2 (*) u v)"

definition payload_dict :: "pyval \<Rightarrow> (string \<times> pyval) list" where
  "payload_dict v = (case v of PDict kvs \<Rightarrow> kvs | _ \<Rightarrow> [])"

definition memory_upsert :: "string \<Rightarrow> point list \<Rightarrow> point list \<Rightarrow> error option \<times> point list" where
  "memory_upsert coll points s =
     (None, fold (\<lambda>p st. filter (\<lambda>q. pt_id q \<noteq> pt_id p) st @ [p]) points s)"

definition memory_search ::
  "string \<Rightarrow> real list \<Rightarrow> int \<Rightarrow> pyval \<Rightarrow> real \<Rightarrow> point list \<Rightarrow> error + scored_point list" where
  "memory_search coll vec limit flt threshold s =
     (let scored = map (\<lambda>p. \<lparr> sp_score = dot vec (pt_vector p),
                              sp_payload = payload_dict (pt_payload p) \<rparr>) s;
          kept = filter (\<lambda>h. threshold \<le> sp_score h \<and> filter_holds flt (sp_payload h)) scored
      in Inr (take (nat limit) (sort_key (\<lambda>h. - sp_score h) kept)))"

text \<open>An embeddings endpoint that is out of service for the texts that start with
  \<^verbatim>\<open>FAIL\<close> and maps every other text to one fixed unit vector.\<close>

definition demo_create :: embeddings_api where
  "demo_create text model =
     (if take 4 text = ''FAIL'' then Inl (ServiceError ''rate limit exceeded'')
      else Inr [1, 0])"

text \<open>\<^verbatim>\<open>EnhancedRAGConfig.__init__\<close> over these services; the relationship mapper knows no
  entity.\<close>

definition demo_rag :: "point list EnhancedRAGConfig" where
  "demo_rag =
     \<lparr> base_rag = ProductionRAGConfig_init,
       collection_name = ''immigration_docs_enhanced'',
       embeddings_create = demo_create,
       client_upsert = memory_upsert,
       client_search = memory_search,
       get_entity_dependencies = (\<lambda>entity. PList []),
       get_process_flow = (\<lambda>entity max_depth. PList []) \<rparr>"

text \<open>\<^verbatim>\<open>EnhancedChunk(content, source_url, document_title, chunk_type, section_title, ...)\<close>
  with the defaults of the dataclass for the fields not given.\<close>

definition demo_chunk :: "string \<Rightarrow> string \<Rightarrow> string \<Rightarrow> int \<Rightarrow> bool \<Rightarrow> real \<Rightarrow> EnhancedChunk" where
  "demo_chunk text url title i current fresh =
     \<lparr> content = text,
       source_url = url,
       document_title = title,
       chunk_type = ''narrative'',
       section_title = ''Overview'',
       subsection_title = [],
       chunk_index = i,
       confidence_score = 1,
       form_numbers = [],
       visa_types = [],
       requirements = [],
       fees = [],
       countries = [],
       relationships = [],
       dependencies = [],
       process_flows = [],
       temporal_info = [],
       is_current = current,
       freshness_score = fresh,
       effective_date = None,
       expiration_date = None \<rparr>"

text \<open>A store whose \<^verbatim>\<open>upsert\<close> raises, one whose \<^verbatim>\<open>search\<close> raises, and one that does not
  look at the filter.\<close>

definition failing_upsert ::
  "string \<Rightarrow> point list \<Rightarrow> point list \<Rightarrow> error option \<times> point list" where
  "failing_upsert coll points s = (Some (ServiceError ''store unreachable''), s)"

definition failing_search ::
  "string \<Rightarrow> real list \<Rightarrow> int \<Rightarrow> pyval \<Rightarrow> real \<Rightarrow> point list \<Rightarrow> error + scored_point list" where
  "failing_search coll vec limit flt threshold s = Inl (ServiceError ''store unreachable'')"

definition unfiltered_search ::
  "string \<Rightarrow> real list \<Rightarrow> int \<Rightarrow> pyval \<Rightarrow> real \<Rightarrow> point list \<Rightarrow> error + scored_point list" where
  "unfiltered_search coll vec limit flt threshold s = memory_search coll vec limit PNone threshold s"

text \<open>Two records of one document about student visas: the first is out of date and
  stale, the second current and fresh; both have the vector every query is mapped to.\<close>

definition demo_store :: "point list" where
  "demo_store =
     [\<lparr> pt_id = 0, pt_vector = [1, 0],
         pt_payload = PDict (asdict
           (demo_chunk ''Student visa rules of 2019.'' ''https://a.example/f-1'' ''F-1 visa''
              0 False (1/5))) \<rparr>,
      \<lparr> pt_id = 1, pt_vector = [1, 0],
         pt_payload = PDict (asdict
           (demo_chunk ''Student visa rules in force.'' ''https://a.example/f-1'' ''F-1 visa''
              1 True (9/10))) \<rparr>]"

text \<open>Two records of two documents that mention forms and fees.\<close>

definition forms_store :: "point list" where
  "forms_store =
     [\<lparr> pt_id = 0, pt_vector = [1, 0],
         pt_payload = PDict (asdict
           ((demo_chunk ''File Form I-130, then Form I-485.'' ''https://a.example/i-130''
               ''Family petitions'' 0 True (1/2))
              \<lparr> form_numbers := [''I-130'', ''I-485''], fees := [''$535''] \<rparr>)) \<rparr>,
      \<lparr> pt_id = 1, pt_vector = [1, 0],
         pt_payload = PDict (asdict
           ((demo_chunk ''Form I-130 needs a filing fee.'' ''https://a.example/fees''
               ''Fees'' 0 True 1)
              \<lparr> form_numbers := [''I-130''], fees := [''$535''] \<rparr>)) \<rparr>]"

section \<open>Vocabulary of the statements\<close>

text \<open>The payload fields of the naming contract (specification, section 6), in the order
  the specification lists them.\<close>

definition payload_fields :: "string list" where
  "payload_fields =
     [''content'', ''document_title'', ''source_url'', ''chunk_type'', ''section_title'',
      ''subsection_title'', ''chunk_index'', ''confidence_score'', ''form_numbers'',
      ''visa_types'', ''requirements'', ''fees'', ''countries'', ''relationships'',
      ''dependencies'', ''process_flows'', ''temporal_info'', ''is_current'',
      ''freshness_score'', ''effective_date'', ''expiration_date'']"

text \<open>What one hit contributes to \<^verbatim>\<open>get_entity_insights\<close>: the items of a metadata entry
  (\<^verbatim>\<open>meta.get(k, [])\<close>, iterated) and its freshness score
  (\<^verbatim>\<open>meta.get('freshness_score', 1.0)\<close>).\<close>

definition meta_items :: "(string \<times> pyval) list \<Rightarrow> string \<Rightarrow> pyval list" where
  "meta_items meta k =
     (case py_iter (dict_get meta k (PList [])) of Inr xs \<Rightarrow> xs | Inl e \<Rightarrow> [])"

definition meta_freshness :: "(string \<times> pyval) list \<Rightarrow> real" where
  "meta_freshness meta =
     (case py_number (dict_get meta ''freshness_score'' (PFloat 1)) of
        Inr x \<Rightarrow> x
      | Inl e \<Rightarrow> 0)"

text \<open>The \<^verbatim>\<open>is_current\<close> entry of a result's metadata.\<close>

definition meta_is_current :: "(string \<times> pyval) list \<Rightarrow> pyval" where
  "meta_is_current meta = dict_get meta ''is_current'' (PBool True)"

text \<open>A metadata dict whose entries have the types the fields of \<open>EnhancedChunk\<close> are
  annotated with.\<close>

fun is_str :: "pyval \<Rightarrow> bool" where
  "is_str (PStr s) = True"
| "is_str v = False"

fun is_str_list :: "pyval \<Rightarrow> bool" where
  "is_str_list (PList xs) = list_all is_str xs"
| "is_str_list v = False"

fun is_list :: "pyval \<Rightarrow> bool" where
  "is_list (PList xs) = True"
| "is_list v = False"

fun is_number :: "pyval \<Rightarrow> bool" where
  "is_number (PInt i) = True"
| "is_number (PFloat x) = True"
| "is_number v = False"

definition typed_metadata :: "(string \<times> pyval) list \<Rightarrow> bool" where
  "typed_metadata meta =
     (is_str_list (dict_get meta ''form_numbers'' (PList []))
      \<and> is_str_list (dict_get meta ''visa_types'' (PList []))
      \<and> is_str_list (dict_get meta ''requirements'' (PList []))
      \<and> is_str_list (dict_get meta ''fees'' (PList []))
      \<and> is_str (dict_get meta ''source_url'' (PStr []))
      \<and> is_list (dict_get meta ''relationships'' (PList []))
      \<and> is_list (dict_get meta ''process_flows'' (PList []))
      \<and> is_list (dict_get meta ''temporal_info'' (PList []))
      \<and> is_number (dict_get meta ''freshness_score'' (PFloat 1)))"

section \<open>Embedding failures\<close>

lemma generate_embedding_Inr:
  "generate_embedding self create text =
     Inr (case create (take 8000 text) (embedding_model self) of
            Inr v \<Rightarrow> v
          | Inl e \<Rightarrow> replicate (embedding_dimensions self) 0)"
  by (simp add: generate_embedding_def Let_def split: sum.splits)

text \<open>
  Claim C3, as stated: when the external embedding call fails, \<^verbatim>\<open>generate_embedding\<close>
  surfaces the failure and never returns an all-zero vector as if it were an embedding.
  It fails on the code: with the endpoint out of service for the text, the call returns
  normally, and what it returns is the vector of 3072 zeros.
\<close>

theorem generate_embedding_failure_counterexample:
  "demo_create ''FAIL: student visa'' (embedding_model ProductionRAGConfig_init)
     = Inl (ServiceError ''rate limit exceeded'')
   \<and> generate_embedding ProductionRAGConfig_init demo_create ''FAIL: student visa''
     = Inr (replicate 3072 0)"
  by (simp add: generate_embedding_def demo_create_def ProductionRAGConfig_init_def)

text \<open>
  Claim C3, amended: when the external embedding call fails on the (truncated) text,
  \<^verbatim>\<open>generate_embedding\<close> raises nothing and returns the dummy embedding, the vector of
  \<^verbatim>\<open>embedding_dimensions\<close> zeros.
\<close>

theorem generate_embedding_failure_dummy:
  assumes "create (if length text > 8000 then take 8000 text else text) (embedding_model self)
             = Inl e"
  shows "generate_embedding self create text = Inr (replicate (embedding_dimensions self) 0)"
  using assms by (simp add: generate_embedding_def Let_def)

theorem generate_embedding_failure_dummy_witness:
  "demo_create (if length ''FAIL: work permit'' > 8000 then take 8000 ''FAIL: work permit''
                else ''FAIL: work permit'') (embedding_model ProductionRAGConfig_init)
     = Inl (ServiceError ''rate limit exceeded'')
   \<and> generate_embedding ProductionRAGConfig_init demo_create ''FAIL: work permit''
     = Inr (replicate (embedding_dimensions ProductionRAGConfig_init) 0)"
proof -
  have h: "demo_create (if length ''FAIL: work permit'' > 8000 then take 8000 ''FAIL: work permit''
                        else ''FAIL: work permit'') (embedding_model ProductionRAGConfig_init)
             = Inl (ServiceError ''rate limit exceeded'')"
    by (simp add: demo_create_def)
  from generate_embedding_failure_dummy
         [of demo_create "''FAIL: work permit''" ProductionRAGConfig_init, OF h] h
  show ?thesis by simp
qed

section \<open>Chunking a long document\<close>

lemma chunk_loop_once:
  "chunk_loop self words document_id title start_idx idx chunks =
     (if start_idx < int (length words) then
        chunks @
        [\<lparr> ch_text = (if title \<noteq> [] then ''Document: '' @ title @ [CHR 0x0A, CHR 0x0A] else [])
               @ join '' '' (py_slice words start_idx
                   (min (start_idx + chunk_size self) (int (length words)))),
           ch_chunk_id = document_id @ ''_chunk_'' @ str_int idx,
           ch_document_id = document_id,
           ch_title = title,
           ch_chunk_index = idx,
           ch_total_chunks = None,
           ch_word_count = int (length (py_slice words start_idx
                   (min (start_idx + chunk_size self) (int (length words))))),
           ch_start_word = Some start_idx,
           ch_end_word = Some (min (start_idx + chunk_size self) (int (length words))) \<rparr>]
      else chunks)"
  by (simp add: Let_def)

text \<open>The loop appends one chunk and stops, so no text gives more than one chunk.\<close>

lemma smart_chunk_text_at_most_one:
  "length (smart_chunk_text self text document_id title) \<le> 1"
  by (simp add: smart_chunk_text_def chunk_loop_once Let_def)

lemma split_from_rep:
  "split_from [] (concat (replicate n ''a '') @ rest) = replicate n ''a'' @ split_from [] rest"
  by (induction n) (simp_all add: isspace_def)

lemma strip_id:
  assumes "s \<noteq> []" "\<not> isspace (hd s)" "\<not> isspace (last s)"
  shows "strip s = s"
proof -
  from assms have 1: "dropWhile isspace s = s" by (cases s) auto
  from assms have 2: "dropWhile isspace (rev s) = rev s"
    by (cases "rev s") (auto simp: last_rev [symmetric] simp del: last_rev)
  show ?thesis by (simp add: strip_def 1 2)
qed

lemma replicate_500: "replicate 500 x = x # replicate 499 x"
proof -
  have "(500::nat) = Suc 499" by simp
  then show ?thesis by (simp only: replicate_Suc)
qed

lemma strip_long_text:
  "strip (concat (replicate 500 ''a '') @ ''LAST'') = concat (replicate 500 ''a '') @ ''LAST''"
proof (rule strip_id)
  show "\<not> isspace (hd (concat (replicate 500 ''a '') @ ''LAST''))"
    by (simp add: replicate_500 isspace_def)
qed (simp_all add: isspace_def)

lemma words_long_text:
  "split (strip (concat (replicate 500 ''a '') @ ''LAST'')) = replicate 500 ''a'' @ [''LAST'']"
  by (simp add: strip_long_text split_def split_from_rep isspace_def)

lemma str_int_0: "str_int 0 = ''0''"
  by code_simp

text \<open>
  Claim C1: for every non-empty text, \<^verbatim>\<open>smart_chunk_text\<close> returns at least one chunk,
  the chunks are ordered by their 0-based \<^verbatim>\<open>chunk_index\<close>, and their word spans together
  cover the whole text, so that no content is lost.

  The code at a text of 501 words, 500 times \<^verbatim>\<open>a\<close> and then \<^verbatim>\<open>LAST\<close>, with the
  configuration of \<^verbatim>\<open>__init__\<close> (500 words a chunk, 50 words of overlap): the loop moves
  \<^verbatim>\<open>start_idx\<close> to \<^verbatim>\<open>end_idx - chunk_overlap\<close> and its guard against an endless loop,
  \<^verbatim>\<open>start_idx >= end_idx - chunk_overlap\<close>, then always holds. One chunk is returned; it
  spans the words 0 to 500, and the word \<^verbatim>\<open>LAST\<close> is in no chunk.
\<close>

theorem smart_chunk_text_long_text:
  "split (strip (concat (replicate 500 ''a '') @ ''LAST'')) = replicate 500 ''a'' @ [''LAST'']
   \<and> smart_chunk_text ProductionRAGConfig_init (concat (replicate 500 ''a '') @ ''LAST'')
        ''doc'' [] =
     [\<lparr> ch_text = join '' '' (replicate 500 ''a''),
        ch_chunk_id = ''doc_chunk_0'',
        ch_document_id = ''doc'',
        ch_title = [],
        ch_chunk_index = 0,
        ch_total_chunks = Some 1,
        ch_word_count = 500,
        ch_start_word = Some 0,
        ch_end_word = Some 500 \<rparr>]"
proof -
  have ne: "strip (concat (replicate 500 ''a '') @ ''LAST'') \<noteq> []"
    by (simp add: strip_long_text)
  have sl: "py_slice (replicate 500 ''a'' @ [''LAST'']) 0 500 = replicate 500 ''a''"
    by (simp add: py_slice_def slice_index_def)
  have "smart_chunk_text ProductionRAGConfig_init (concat (replicate 500 ''a '') @ ''LAST'')
        ''doc'' [] =
     [\<lparr> ch_text = join '' '' (replicate 500 ''a''),
        ch_chunk_id = ''doc_chunk_0'',
        ch_document_id = ''doc'',
        ch_title = [],
        ch_chunk_index = 0,
        ch_total_chunks = Some 1,
        ch_word_count = 500,
        ch_start_word = Some 0,
        ch_end_word = Some 500 \<rparr>]"
    unfolding smart_chunk_text_def Let_def words_long_text chunk_loop_once
    using ne by (simp add: ProductionRAGConfig_init_def sl str_int_0)
  with words_long_text show ?thesis by (simp only: simp_thms)
qed

section \<open>Storing a batch\<close>

lemma embed_texts_Inr:
  "embed_texts self texts =
     Inr (map (\<lambda>t. case embeddings_create self (take 8000 t) (embedding_model (base_rag self)) of
                     Inr v \<Rightarrow> v
                   | Inl e \<Rightarrow> replicate (embedding_dimensions (base_rag self)) 0) texts)"
  by (induction texts) (simp_all add: generate_embedding_Inr)

lemma length_prepare_points:
  "length (prepare_points chunks embeddings) = min (length chunks) (length embeddings)"
  by (simp add: prepare_points_def)

lemma prepare_points_ids:
  "map pt_id (prepare_points chunks embeddings)
     = map int [0..<min (length chunks) (length embeddings)]"
  by (auto simp: prepare_points_def list_eq_iff_nth_eq nth_enumerate_eq)

lemma prepare_points_vectors:
  assumes "length embeddings = length chunks"
  shows "map pt_vector (prepare_points chunks embeddings) = embeddings"
  using assms
  by (auto simp: prepare_points_def list_eq_iff_nth_eq nth_enumerate_eq)

lemma embed_texts_length:
  assumes "embed_texts self texts = Inr embeddings"
  shows "length embeddings = length texts"
  using assms by (simp add: embed_texts_Inr) auto

lemma store_enhanced_chunks_upsert:
  assumes "embed_texts self (map content chunks) = Inr embeddings"
  shows "store_enhanced_chunks self chunks s =
     (case client_upsert self (collection_name self) (prepare_points chunks embeddings) s of
        (r, s') \<Rightarrow> (r = None, s'))"
  using assms
  by (auto simp: store_enhanced_chunks_def Let_def split: prod.splits option.splits)

lemma store_enhanced_chunks_eq:
  "store_enhanced_chunks self chunks s =
     (case client_upsert self (collection_name self)
             (prepare_points chunks
                (map (\<lambda>c. case embeddings_create self (take 8000 (content c))
                                   (embedding_model (base_rag self)) of
                              Inr v \<Rightarrow> v
                            | Inl e \<Rightarrow> replicate (embedding_dimensions (base_rag self)) 0)
                     chunks)) s of
        (r, s') \<Rightarrow> (r = None, s'))"
  by (auto simp: store_enhanced_chunks_def embed_texts_Inr comp_def
           split: prod.splits option.splits)

text \<open>
  Claim C2, as stated: a failure to embed or to persist one record of a batch does not
  block the records after it; the failing record is logged and skipped, the others are
  stored.
  It fails on the code. In the first batch the embedding call fails for the first record:
  the record is not skipped, it is stored under the vector of 3072 zeros. In the second
  batch the store's \<^verbatim>\<open>upsert\<close> raises: the function returns \<^verbatim>\<open>False\<close> and no record of
  the batch is stored.
\<close>

theorem store_enhanced_chunks_batch_counterexample:
  "store_enhanced_chunks demo_rag
      [demo_chunk ''FAIL: unreadable page'' ''https://a.example/i-130'' ''Form I-130'' 0 True 1,
       demo_chunk ''File Form I-130 first.'' ''https://a.example/i-130'' ''Form I-130'' 1 True 1]
      []
    = (True,
       [\<lparr> pt_id = 0, pt_vector = replicate 3072 0,
           pt_payload = make_serializable (PDict (asdict
             (demo_chunk ''FAIL: unreadable page'' ''https://a.example/i-130'' ''Form I-130''
                0 True 1))) \<rparr>,
        \<lparr> pt_id = 1, pt_vector = [1, 0],
           pt_payload = make_serializable (PDict (asdict
             (demo_chunk ''File Form I-130 first.'' ''https://a.example/i-130'' ''Form I-130''
                1 True 1))) \<rparr>])
   \<and> store_enhanced_chunks (demo_rag\<lparr>client_upsert := failing_upsert\<rparr>)
      [demo_chunk ''File Form I-130 first.'' ''https://a.example/i-130'' ''Form I-130'' 0 True 1,
       demo_chunk ''Then file Form I-485.'' ''https://a.example/i-130'' ''Form I-130'' 1 True 1]
      []
    = (False, [])"
  by (simp add: store_enhanced_chunks_eq prepare_points_def demo_rag_def demo_create_def
        memory_upsert_def failing_upsert_def ProductionRAGConfig_init_def demo_chunk_def
        enumerate_eq_zip upt_rec)

text \<open>
  Claim C2, amended: \<^verbatim>\<open>store_enhanced_chunks\<close> handles the batch as a whole. It embeds
  every record (a record whose embedding call fails stays in the batch, with the vector of
  \<^verbatim>\<open>embedding_dimensions\<close> zeros), hands all the records of the batch to the store in one
  \<^verbatim>\<open>upsert\<close>, and returns \<^verbatim>\<open>True\<close> when that call returns and \<^verbatim>\<open>False\<close> when it
  raises. No record is skipped or stored on its own.
\<close>

theorem store_enhanced_chunks_one_upsert:
  "store_enhanced_chunks self chunks s =
     (case client_upsert self (collection_name self)
             (prepare_points chunks
                (map (\<lambda>c. case embeddings_create self (take 8000 (content c))
                                   (embedding_model (base_rag self)) of
                              Inr v \<Rightarrow> v
                            | Inl e \<Rightarrow> replicate (embedding_dimensions (base_rag self)) 0)
                     chunks)) s of
        (r, s') \<Rightarrow> (r = None, s'))
   \<and> length
        (prepare_points chunks
           (map (\<lambda>c. case embeddings_create self (take 8000 (content c))
                              (embedding_model (base_rag self)) of
                         Inr v \<Rightarrow> v
                       | Inl e \<Rightarrow> replicate (embedding_dimensions (base_rag self)) 0)
                chunks))
      = length chunks
   \<and> map pt_vector
        (prepare_points chunks
           (map (\<lambda>c. case embeddings_create self (take 8000 (content c))
                              (embedding_model (base_rag self)) of
                         Inr v \<Rightarrow> v
                       | Inl e \<Rightarrow> replicate (embedding_dimensions (base_rag self)) 0)
                chunks))
      = map (\<lambda>c. case embeddings_create self (take 8000 (content c))
                              (embedding_model (base_rag self)) of
                         Inr v \<Rightarrow> v
                       | Inl e \<Rightarrow> replicate (embedding_dimensions (base_rag self)) 0)
            chunks"
  by (simp add: store_enhanced_chunks_eq length_prepare_points prepare_points_vectors)

text \<open>
  Claim C6: every record persisted to the store references a document and a chunk index
  unique within that document; records of two different documents are never persisted
  under the same store key.

  The code at two documents of one chunk each, stored one after the other: the key of a
  point is its position in the batch of the call, so both records get the key 0, and after
  the second call the store holds the record of the second document only.
\<close>

theorem store_enhanced_chunks_key_collision:
  "store_enhanced_chunks demo_rag
      [demo_chunk ''Form I-130 petition.'' ''https://a.example/i-130'' ''Form I-130'' 0 True 1] []
    = (True,
       [\<lparr> pt_id = 0, pt_vector = [1, 0],
           pt_payload = make_serializable (PDict (asdict
             (demo_chunk ''Form I-130 petition.'' ''https://a.example/i-130'' ''Form I-130''
                0 True 1))) \<rparr>])
   \<and> store_enhanced_chunks demo_rag
      [demo_chunk ''Form N-400 application.'' ''https://b.example/n-400'' ''Form N-400'' 0 True 1]
      (snd (store_enhanced_chunks demo_rag
         [demo_chunk ''Form I-130 petition.'' ''https://a.example/i-130'' ''Form I-130''
            0 True 1] []))
    = (True,
       [\<lparr> pt_id = 0, pt_vector = [1, 0],
           pt_payload = make_serializable (PDict (asdict
             (demo_chunk ''Form N-400 application.'' ''https://b.example/n-400'' ''Form N-400''
                0 True 1))) \<rparr>])"
  by (simp add: store_enhanced_chunks_eq prepare_points_def demo_rag_def demo_create_def
        memory_upsert_def ProductionRAGConfig_init_def demo_chunk_def
        enumerate_eq_zip upt_rec)

section \<open>The persisted payload\<close>

lemma asdict_keys:
  "map fst (asdict c) =
     [''content'', ''source_url'', ''document_title'', ''chunk_type'', ''section_title'',
      ''subsection_title'', ''chunk_index'', ''confidence_score'', ''form_numbers'',
      ''visa_types'', ''requirements'', ''fees'', ''countries'', ''relationships'',
      ''dependencies'', ''process_flows'', ''temporal_info'', ''is_current'',
      ''freshness_score'', ''effective_date'', ''expiration_date'']"
  by (simp add: asdict_def)

lemma payload_keys:
  "\<exists>payload. make_serializable (PDict (asdict c)) = PDict payload
      \<and> map fst payload = map fst (asdict c)"
  by (simp add: comp_def)

lemma prepare_points_payload:
  assumes "p \<in> set (prepare_points chunks embeddings)"
  shows "\<exists>c \<in> set chunks. pt_payload p = make_serializable (PDict (asdict c))"
proof -
  from assms obtain i c e where "(i, c, e) \<in> set (enumerate 0 (zip chunks embeddings))"
    and p: "p = \<lparr> pt_id = int i, pt_vector = e,
                  pt_payload = make_serializable (PDict (asdict c)) \<rparr>"
    by (auto simp: prepare_points_def)
  then have "c \<in> set chunks" by (auto simp: in_set_enumerate_eq)
  with p show ?thesis by auto
qed

lemma prepare_points_fields:
  assumes "p \<in> set (prepare_points chunks embeddings)"
  shows "\<exists>payload. pt_payload p = PDict payload
        \<and> distinct (map fst payload)
        \<and> set (map fst payload) = set payload_fields"
proof -
  from assms obtain c where c: "pt_payload p = make_serializable (PDict (asdict c))"
    using prepare_points_payload by blast
  obtain payload where pl: "make_serializable (PDict (asdict c)) = PDict payload"
    and keys: "map fst payload = map fst (asdict c)"
    using payload_keys by blast
  have "distinct (map fst payload)"
    unfolding keys asdict_keys by simp
  moreover have "set (map fst payload) = set payload_fields"
    unfolding keys asdict_keys payload_fields_def by (simp add: insert_commute)
  ultimately show ?thesis
    using c pl by simp
qed

text \<open>
  Claim C9: every payload persisted by \<^verbatim>\<open>store_enhanced_chunks\<close> has exactly the fields of
  the naming contract: content, document_title, source_url, chunk_type, section_title,
  subsection_title, chunk_index, confidence_score, form_numbers, visa_types, requirements,
  fees, countries, relationships, dependencies, process_flows, temporal_info, is_current,
  freshness_score, effective_date, expiration_date.
  \<^verbatim>\<open>store_enhanced_chunks\<close> embeds the texts of the batch and hands to the \<^verbatim>\<open>upsert\<close> of the
  store one point for each record; the payload of every one of these points is a dict, no
  key occurs twice in it, and its keys are the fields of the contract.
\<close>

theorem stored_payload_fields:
  "\<exists>embeddings.
      embed_texts self (map content chunks) = Inr embeddings
    \<and> store_enhanced_chunks self chunks s =
        (case client_upsert self (collection_name self) (prepare_points chunks embeddings) s of
           (r, s') \<Rightarrow> (r = None, s'))
    \<and> length (prepare_points chunks embeddings) = length chunks
    \<and> (\<forall>p \<in> set (prepare_points chunks embeddings).
          \<exists>payload. pt_payload p = PDict payload
             \<and> distinct (map fst payload)
             \<and> set (map fst payload) = set payload_fields)"
proof -
  obtain embeddings where e: "embed_texts self (map content chunks) = Inr embeddings"
    by (simp add: embed_texts_Inr)
  from embed_texts_length [OF e] have "length (prepare_points chunks embeddings) = length chunks"
    by (simp add: length_prepare_points)
  with e store_enhanced_chunks_upsert [OF e] prepare_points_fields show ?thesis
    by blast
qed

theorem stored_payload_fields_witness:
  "store_enhanced_chunks demo_rag
      [demo_chunk ''Form I-130 petition.'' ''https://a.example/i-130'' ''Form I-130'' 0 True 1] []
    = (True,
       prepare_points
         [demo_chunk ''Form I-130 petition.'' ''https://a.example/i-130'' ''Form I-130'' 0 True 1]
         [[1, 0]])
   \<and> (\<exists>payload.
        pt_payload (hd (snd (store_enhanced_chunks demo_rag
          [demo_chunk ''Form I-130 petition.'' ''https://a.example/i-130'' ''Form I-130'' 0 True 1]
          []))) = PDict payload
      \<and> distinct (map fst payload)
      \<and> set (map fst payload) = set payload_fields)"
proof -
  let ?c = "demo_chunk ''Form I-130 petition.'' ''https://a.example/i-130'' ''Form I-130'' 0 True 1"
  have emb: "embed_texts demo_rag (map content [?c]) = Inr [[1, 0]]"
    by (simp add: embed_texts_Inr demo_rag_def demo_create_def demo_chunk_def)
  from stored_payload_fields [of demo_rag "[?c]" "[]"]
  obtain embeddings where e: "embed_texts demo_rag (map content [?c]) = Inr embeddings"
    and st: "store_enhanced_chunks demo_rag [?c] [] =
        (case client_upsert demo_rag (collection_name demo_rag) (prepare_points [?c] embeddings) [] of
           (r, s') \<Rightarrow> (r = None, s'))"
    and fields: "\<forall>p \<in> set (prepare_points [?c] embeddings).
          \<exists>payload. pt_payload p = PDict payload
             \<and> distinct (map fst payload)
             \<and> set (map fst payload) = set payload_fields"
    by blast
  from e emb have eq: "embeddings = [[1, 0]]" by simp
  have up: "client_upsert demo_rag (collection_name demo_rag) (prepare_points [?c] [[1, 0]]) []
              = (None, prepare_points [?c] [[1, 0]])"
    by (simp add: demo_rag_def memory_upsert_def prepare_points_def)
  from st have 1: "store_enhanced_chunks demo_rag [?c] [] = (True, prepare_points [?c] [[1, 0]])"
    unfolding eq up by simp
  have "hd (prepare_points [?c] [[1, 0]]) \<in> set (prepare_points [?c] [[1, 0]])"
    by (simp add: prepare_points_def)
  with fields have 2: "\<exists>payload. pt_payload (hd (prepare_points [?c] [[1, 0]])) = PDict payload
             \<and> distinct (map fst payload)
             \<and> set (map fst payload) = set payload_fields"
    unfolding eq by (rule bspec)
  from 1 2 show ?thesis by (simp only: snd_conv simp_thms)
qed

section \<open>Searching\<close>

lemma semantic_search_enhanced_Inr:
  "semantic_search_enhanced self query limit filters s =
     Inr (case search_try self query limit filters s of Inl e \<Rightarrow> [] | Inr rs \<Rightarrow> rs)"
  by (simp add: semantic_search_enhanced_def split: sum.splits)

lemma search_try_eq:
  "search_try self query limit filters s =
     (case client_search self (collection_name self)
             (case embeddings_create self (take 8000 query) (embedding_model (base_rag self)) of
                Inr v \<Rightarrow> v | Inl e \<Rightarrow> replicate (embedding_dimensions (base_rag self)) 0)
             limit (search_filter_of filters) 0.5 s of
        Inl e \<Rightarrow> Inl e
      | Inr hits \<Rightarrow> Inr (map enhanced_result hits))"
  by (simp add: search_try_def generate_embedding_Inr Let_def)

lemma search_try_hits:
  assumes "generate_embedding (base_rag self) (embeddings_create self) query = Inr qv"
  shows "search_try self query limit filters s =
     (case client_search self (collection_name self) qv limit (search_filter_of filters) (1/2) s of
        Inl e \<Rightarrow> Inl e
      | Inr hits \<Rightarrow> Inr (map enhanced_result hits))"
  using assms by (simp add: search_try_def Let_def)

lemma memory_search_honours_filter: "honours_filter memory_search"
  unfolding honours_filter_def memory_search_def Let_def
  by (auto simp: list_all_iff dest!: in_set_takeD)

lemmas demo_defs = semantic_search_enhanced_Inr search_try_eq demo_rag_def demo_create_def
  ProductionRAGConfig_init_def memory_search_def demo_store_def search_filter_of_def
  build_search_filter_def filter_holds_def condition_holds_def match_holds_def range_holds_def
  field_matches_def dot_def payload_dict_def asdict_def demo_chunk_def enhanced_result_def
  dict_get_def str_list_def opt_str_def Let_def

text \<open>
  Claim C10: for every query, limit and filters, \<^verbatim>\<open>semantic_search_enhanced\<close> propagates no
  exception to its caller; if the embedding generation or the search of the vector store
  raises, it returns the empty list.
  (\<open>error\<close> stands for the exceptions that \<^verbatim>\<open>except Exception\<close> catches.)
\<close>

theorem semantic_search_enhanced_never_raises:
  "\<not> isl (semantic_search_enhanced self query limit filters s)
   \<and> (isl (generate_embedding (base_rag self) (embeddings_create self) query)
        \<or> isl (client_search self (collection_name self)
                 (projr (generate_embedding (base_rag self) (embeddings_create self) query))
                 limit (search_filter_of filters) (1/2) s)
      \<longrightarrow> semantic_search_enhanced self query limit filters s = Inr [])"
  by (auto simp: semantic_search_enhanced_Inr search_try_def Let_def generate_embedding_Inr
           split: sum.splits)

theorem semantic_search_enhanced_never_raises_witness:
  "isl (client_search (demo_rag\<lparr>client_search := failing_search\<rparr>)
          (collection_name (demo_rag\<lparr>client_search := failing_search\<rparr>))
          (projr (generate_embedding (base_rag (demo_rag\<lparr>client_search := failing_search\<rparr>))
             (embeddings_create (demo_rag\<lparr>client_search := failing_search\<rparr>))
             ''student visa''))
          5 (search_filter_of None) (1/2) demo_store)
   \<and> semantic_search_enhanced (demo_rag\<lparr>client_search := failing_search\<rparr>)
         ''student visa'' 5 None demo_store = Inr []"
proof -
  have h: "isl (client_search (demo_rag\<lparr>client_search := failing_search\<rparr>)
          (collection_name (demo_rag\<lparr>client_search := failing_search\<rparr>))
          (projr (generate_embedding (base_rag (demo_rag\<lparr>client_search := failing_search\<rparr>))
             (embeddings_create (demo_rag\<lparr>client_search := failing_search\<rparr>))
             ''student visa''))
          5 (search_filter_of None) (1/2) demo_store)"
    by (simp add: failing_search_def)
  with semantic_search_enhanced_never_raises
         [of "demo_rag\<lparr>client_search := failing_search\<rparr>" "''student visa''" 5 None demo_store]
  show ?thesis by blast
qed

subsection \<open>Arguments outside the contract\<close>

lemma build_search_filter_unknown_key:
  assumes "k \<notin> {''form_numbers'', ''visa_types'', ''chunk_type'', ''current_only'',
                ''min_freshness''}"
  shows "build_search_filter ((k, v) # d) = build_search_filter d"
proof -
  from assms have "''form_numbers'' \<noteq> k" "''visa_types'' \<noteq> k" "''chunk_type'' \<noteq> k"
    "''current_only'' \<noteq> k" "''min_freshness'' \<noteq> k"
    by auto
  then show ?thesis
    by (simp add: build_search_filter_def)
qed

lemma build_search_filter_Nil: "build_search_filter [] = PNone"
  by (simp add: build_search_filter_def)

text \<open>
  Claim C4, as stated: a call of \<^verbatim>\<open>semantic_search_enhanced\<close> with a negative limit, or
  with a filters dict that has an unknown key, is rejected at once with a descriptive
  error; the argument is not silently ignored.
  It fails on the code. With the unknown key \<^verbatim>\<open>is_current\<close> the call returns what the call
  without filters returns, the out-of-date record included; with the limit -1 the call
  returns a list as well, here the empty one.
\<close>

theorem semantic_search_enhanced_validation_counterexample:
  "semantic_search_enhanced demo_rag ''student visa requirements'' 5
      (Some [(''is_current'', PBool True)]) demo_store
    = semantic_search_enhanced demo_rag ''student visa requirements'' 5 None demo_store
   \<and> map (meta_is_current \<circ> res_metadata)
        (projr (semantic_search_enhanced demo_rag ''student visa requirements'' 5
                  (Some [(''is_current'', PBool True)]) demo_store))
      = [PBool False, PBool True]
   \<and> semantic_search_enhanced demo_rag ''student visa requirements'' (- 1) None demo_store
      = Inr []"
proof -
  have 1: "semantic_search_enhanced demo_rag ''student visa requirements'' 5
      (Some [(''is_current'', PBool True)]) demo_store
    = semantic_search_enhanced demo_rag ''student visa requirements'' 5 None demo_store"
    by (simp add: semantic_search_enhanced_Inr search_try_eq search_filter_of_def
          build_search_filter_def)
  have 2: "map (meta_is_current \<circ> res_metadata)
        (projr (semantic_search_enhanced demo_rag ''student visa requirements'' 5 None demo_store))
      = [PBool False, PBool True]"
    by (simp add: demo_defs meta_is_current_def)
  have 3: "semantic_search_enhanced demo_rag ''student visa requirements'' (- 1) None demo_store
      = Inr []"
    by (simp add: semantic_search_enhanced_Inr search_try_eq demo_rag_def memory_search_def
          Let_def)
  from 1 2 3 show ?thesis by (simp only: simp_thms)
qed

text \<open>
  Claim C4, amended: \<^verbatim>\<open>semantic_search_enhanced\<close> validates none of its arguments. A key
  of the filters dict other than \<^verbatim>\<open>form_numbers\<close>, \<^verbatim>\<open>visa_types\<close>, \<^verbatim>\<open>chunk_type\<close>,
  \<^verbatim>\<open>current_only\<close> and \<^verbatim>\<open>min_freshness\<close> is ignored: the call returns what it returns
  without that key. Whatever the limit, negative or not, the call raises no error and
  returns a list.
\<close>

theorem semantic_search_enhanced_no_validation:
  assumes "k \<notin> {''form_numbers'', ''visa_types'', ''chunk_type'', ''current_only'',
                ''min_freshness''}"
  shows "semantic_search_enhanced self query limit (Some ((k, v) # d)) s
           = semantic_search_enhanced self query limit (Some d) s
         \<and> \<not> isl (semantic_search_enhanced self query limit (Some ((k, v) # d)) s)"
proof -
  have "search_filter_of (Some ((k, v) # d)) = search_filter_of (Some d)"
  proof (cases "d = []")
    case True
    then show ?thesis
      by (simp add: search_filter_of_def build_search_filter_unknown_key [OF assms]
            build_search_filter_Nil)
  next
    case False
    then show ?thesis
      by (simp add: search_filter_of_def build_search_filter_unknown_key [OF assms])
  qed
  then show ?thesis
    by (simp add: semantic_search_enhanced_Inr search_try_eq)
qed

theorem semantic_search_enhanced_no_validation_witness:
  "''is_current'' \<notin> {''form_numbers'', ''visa_types'', ''chunk_type'', ''current_only'',
                       ''min_freshness''}
   \<and> semantic_search_enhanced demo_rag ''student visa'' (- 1)
         (Some [(''is_current'', PBool True), (''chunk_type'', PStr ''narrative'')]) demo_store
       = semantic_search_enhanced demo_rag ''student visa'' (- 1)
         (Some [(''chunk_type'', PStr ''narrative'')]) demo_store
   \<and> \<not> isl (semantic_search_enhanced demo_rag ''student visa'' (- 1)
         (Some [(''is_current'', PBool True), (''chunk_type'', PStr ''narrative'')]) demo_store)"
proof -
  have h: "''is_current'' \<notin> {''form_numbers'', ''visa_types'', ''chunk_type'', ''current_only'',
                               ''min_freshness''}"
    by simp
  show ?thesis
    by (rule conjI [OF h semantic_search_enhanced_no_validation [OF h]])
qed

subsection \<open>The currentness filter\<close>

lemma build_search_filter_current_only:
  assumes "map_of d ''current_only'' = Some v" "truthy v"
  shows "\<exists>cs. build_search_filter d = PDict [(''must'', PList cs)]
           \<and> PDict [(''key'', PStr ''is_current''), (''match'', PDict [(''value'', PBool True)])]
               \<in> set cs"
  using assms by (simp add: build_search_filter_def Let_def split: option.splits)

lemma is_current_condition:
  assumes "condition_holds
     (PDict [(''key'', PStr ''is_current''), (''match'', PDict [(''value'', PBool True)])]) payload"
  shows "dict_get payload ''is_current'' (PBool True) \<noteq> PBool False"
  using assms
  by (auto simp: condition_holds_def match_holds_def field_matches_def dict_get_def
           split: option.splits pyval.splits)

lemma enhanced_result_is_current:
  "meta_is_current (res_metadata (enhanced_result h))
     = dict_get (sp_payload h) ''is_current'' (PBool True)"
  by (simp add: enhanced_result_def meta_is_current_def dict_get_def Let_def)

text \<open>
  Claim C5: for every query, a search with the currentness filter, the one that asks for
  \<^verbatim>\<open>is_current = true\<close>, never returns a record whose stored \<^verbatim>\<open>is_current\<close> is false.
  In the code the filter is requested by a true value under the key \<^verbatim>\<open>current_only\<close>; the
  condition goes to the vector store, which is taken to return only matches that satisfy the
  filter it is given. The \<^verbatim>\<open>is_current\<close> of a result is the stored field, or \<^verbatim>\<open>True\<close>
  when the payload has none.
\<close>

theorem current_only_search:
  assumes "honours_filter (client_search self)"
    and "map_of d ''current_only'' = Some v" and "truthy v"
    and "semantic_search_enhanced self query limit (Some d) s = Inr results"
  shows "\<forall>r \<in> set results. meta_is_current (res_metadata r) \<noteq> PBool False"
proof
  fix r assume r: "r \<in> set results"
  from assms(2) have ne: "d \<noteq> []" by auto
  obtain cs where flt: "build_search_filter d = PDict [(''must'', PList cs)]"
    and cond: "PDict [(''key'', PStr ''is_current''), (''match'', PDict [(''value'', PBool True)])]
                 \<in> set cs"
    using build_search_filter_current_only [OF assms(2,3)] by blast
  let ?qv = "case embeddings_create self (take 8000 query) (embedding_model (base_rag self)) of
                Inr v \<Rightarrow> v | Inl e \<Rightarrow> replicate (embedding_dimensions (base_rag self)) 0"
  from assms(4) r obtain hits where
    hits: "client_search self (collection_name self) ?qv limit (build_search_filter d) 0.5 s
             = Inr hits"
    and res: "results = map enhanced_result hits"
    using ne
    by (auto simp: semantic_search_enhanced_Inr search_try_eq search_filter_of_def
             split: sum.splits)
  from r res obtain h where h: "h \<in> set hits" and rh: "r = enhanced_result h" by auto
  from assms(1) hits have "list_all (\<lambda>h. filter_holds (build_search_filter d) (sp_payload h)) hits"
    unfolding honours_filter_def by blast
  with h have "filter_holds (build_search_filter d) (sp_payload h)"
    by (simp add: list_all_iff)
  with flt cond have "condition_holds
     (PDict [(''key'', PStr ''is_current''), (''match'', PDict [(''value'', PBool True)])])
     (sp_payload h)"
    by (simp add: filter_holds_def list_all_iff)
  then have "dict_get (sp_payload h) ''is_current'' (PBool True) \<noteq> PBool False"
    by (rule is_current_condition)
  then show "meta_is_current (res_metadata r) \<noteq> PBool False"
    by (simp add: rh enhanced_result_is_current)
qed

theorem current_only_search_witness:
  "honours_filter (client_search demo_rag)
   \<and> map_of [(''current_only'', PBool True)] ''current_only'' = Some (PBool True)
   \<and> truthy (PBool True)
   \<and> map (meta_is_current \<circ> res_metadata)
        (projr (semantic_search_enhanced demo_rag ''student visa requirements'' 5
                  (Some [(''current_only'', PBool True)]) demo_store))
      = [PBool True]
   \<and> list_all (\<lambda>r. meta_is_current (res_metadata r) \<noteq> PBool False)
        (projr (semantic_search_enhanced demo_rag ''student visa requirements'' 5
                  (Some [(''current_only'', PBool True)]) demo_store))"
proof -
  have h1: "honours_filter (client_search demo_rag)"
    by (simp add: demo_rag_def memory_search_honours_filter)
  have h2: "map_of [(''current_only'', PBool True)] ''current_only'' = Some (PBool True)"
    by simp
  have h3: "truthy (PBool True)" by simp
  have h4: "semantic_search_enhanced demo_rag ''student visa requirements'' 5
              (Some [(''current_only'', PBool True)]) demo_store
            = Inr (projr (semantic_search_enhanced demo_rag ''student visa requirements'' 5
              (Some [(''current_only'', PBool True)]) demo_store))"
    by (simp add: semantic_search_enhanced_Inr)
  have ev: "map (meta_is_current \<circ> res_metadata)
        (projr (semantic_search_enhanced demo_rag ''student visa requirements'' 5
                  (Some [(''current_only'', PBool True)]) demo_store))
      = [PBool True]"
    by (simp add: demo_defs meta_is_current_def)
  from current_only_search [OF h1 h2 h3 h4] h1 h2 h3 ev show ?thesis
    by (simp add: list_all_iff)
qed

subsection \<open>The order of the results\<close>

lemma enhanced_result_score: "res_score (enhanced_result h) = sp_score h"
  by (simp add: enhanced_result_def Let_def)

text \<open>
  Claim C7, as stated: \<^verbatim>\<open>semantic_search_enhanced\<close> returns its results by descending
  similarity score, and of two results with the same score the one with the higher
  \<^verbatim>\<open>freshness_score\<close> comes first.
  It fails on the code: the two records of the store score 1 both, and the result with
  freshness 1/5 comes before the result with freshness 9/10.
\<close>

theorem search_order_counterexample:
  "map res_score
        (projr (semantic_search_enhanced demo_rag ''student visa requirements'' 5 None demo_store))
      = [1, 1]
   \<and> map (meta_freshness \<circ> res_metadata)
        (projr (semantic_search_enhanced demo_rag ''student visa requirements'' 5 None demo_store))
      = [1/5, 9/10]"
proof -
  have 1: "map res_score
        (projr (semantic_search_enhanced demo_rag ''student visa requirements'' 5 None demo_store))
      = [1, 1]"
    by (simp add: demo_defs)
  have 2: "map (meta_freshness \<circ> res_metadata)
        (projr (semantic_search_enhanced demo_rag ''student visa requirements'' 5 None demo_store))
      = [1/5, 9/10]"
    by (simp add: demo_defs meta_freshness_def)
  from 1 2 show ?thesis by (simp only: simp_thms)
qed

text \<open>
  Claim C7, amended: \<^verbatim>\<open>semantic_search_enhanced\<close> returns one result for each match of the
  vector store, in the order in which the store returned the matches and with their
  scores; so the results are in descending order of similarity whenever the store ranks its
  matches so. The function does not reorder results of equal score.
\<close>

theorem search_keeps_store_order:
  assumes "generate_embedding (base_rag self) (embeddings_create self) query = Inr qv"
    and "client_search self (collection_name self) qv limit (search_filter_of filters) (1/2) s
           = Inr hits"
  shows "semantic_search_enhanced self query limit filters s = Inr (map enhanced_result hits)
       \<and> map res_score (map enhanced_result hits) = map sp_score hits
       \<and> (sorted_wrt (\<ge>) (map sp_score hits)
            \<longrightarrow> sorted_wrt (\<ge>) (map res_score (map enhanced_result hits)))"
proof -
  have "map res_score (map enhanced_result hits) = map sp_score hits"
    by (simp add: enhanced_result_score comp_def)
  moreover have "semantic_search_enhanced self query limit filters s
                   = Inr (map enhanced_result hits)"
    using assms by (simp add: semantic_search_enhanced_def search_try_hits)
  ultimately show ?thesis by (simp only: simp_thms)
qed

theorem search_keeps_store_order_witness:
  "generate_embedding (base_rag demo_rag) (embeddings_create demo_rag) ''student visa''
     = Inr [1, 0]
   \<and> map sp_score (projr (client_search demo_rag (collection_name demo_rag) [1, 0] 5
                            (search_filter_of None) (1/2) demo_store)) = [1, 1]
   \<and> map res_score (projr (semantic_search_enhanced demo_rag ''student visa'' 5 None demo_store))
       = [1, 1]
   \<and> sorted_wrt (\<ge>)
        (map res_score (projr (semantic_search_enhanced demo_rag ''student visa'' 5 None
                                 demo_store)))"
proof -
  have h1: "generate_embedding (base_rag demo_rag) (embeddings_create demo_rag) ''student visa''
              = Inr [1, 0]"
    by (simp add: generate_embedding_Inr demo_rag_def demo_create_def)
  have h2: "client_search demo_rag (collection_name demo_rag) [1, 0] 5
              (search_filter_of None) (1/2) demo_store
            = Inr (projr (client_search demo_rag (collection_name demo_rag) [1, 0] 5
              (search_filter_of None) (1/2) demo_store))"
    by (simp add: demo_rag_def memory_search_def Let_def)
  have sc: "map sp_score (projr (client_search demo_rag (collection_name demo_rag) [1, 0] 5
                            (search_filter_of None) (1/2) demo_store)) = [1, 1]"
    by (simp add: demo_rag_def memory_search_def demo_store_def search_filter_of_def
          filter_holds_def dot_def Let_def)
  from search_keeps_store_order [OF h1 h2] h1 sc show ?thesis
    by simp
qed

section \<open>Entity insights\<close>

lemma bind_err_Inr:
  "bind_err m f = Inr y \<longleftrightarrow> (\<exists>x. m = Inr x \<and> f x = Inr y)"
  by (cases m) (simp_all add: bind_err_def)

lemma set_add_Inr:
  assumes "set_add S x = Inr S'"
  shows "py_key ` set S' = insert (py_key x) (py_key ` set S)"
    and "distinct (map py_key S) \<Longrightarrow> distinct (map py_key S')"
  using assms by (auto simp: set_add_def split: if_splits)

lemma set_add_all_Inr:
  assumes "set_add_all S xs = Inr S'"
  shows "py_key ` set S' = py_key ` (set S \<union> set xs)
         \<and> (distinct (map py_key S) \<longrightarrow> distinct (map py_key S'))"
  using assms
proof (induction xs arbitrary: S)
  case Nil
  then show ?case by simp
next
  case (Cons x xs)
  then obtain S1 where 1: "set_add S x = Inr S1" and 2: "set_add_all S1 xs = Inr S'"
    by (auto simp: bind_err_Inr)
  from Cons.IH [OF 2] set_add_Inr [OF 1] show ?case
    by (simp add: image_Un)
qed

lemma set_update_Inr:
  assumes "set_update S v = Inr S'"
  shows "py_key ` set S' = py_key ` (set S \<union> set (case py_iter v of Inr xs \<Rightarrow> xs | Inl e \<Rightarrow> []))
         \<and> (distinct (map py_key S) \<longrightarrow> distinct (map py_key S'))"
proof -
  from assms obtain xs where "py_iter v = Inr xs" "set_add_all S xs = Inr S'"
    by (auto simp: set_update_def bind_err_Inr)
  then show ?thesis using set_add_all_Inr [of S xs S'] by simp
qed

lemma list_extend_Inr:
  assumes "list_extend L v = Inr L'"
  shows "L' = L @ (case py_iter v of Inr xs \<Rightarrow> xs | Inl e \<Rightarrow> [])"
  using assms by (auto simp: list_extend_def bind_err_Inr)

lemma aggregate_result_Inr:
  assumes "aggregate_result st r = Inr st'"
  shows "set_update (ins_related_forms (fst st))
           (dict_get (res_metadata r) ''form_numbers'' (PList [])) = Inr (ins_related_forms (fst st'))"
    and "set_update (ins_related_visas (fst st))
           (dict_get (res_metadata r) ''visa_types'' (PList [])) = Inr (ins_related_visas (fst st'))"
    and "set_update (ins_requirements (fst st))
           (dict_get (res_metadata r) ''requirements'' (PList [])) = Inr (ins_requirements (fst st'))"
    and "set_update (ins_fees (fst st))
           (dict_get (res_metadata r) ''fees'' (PList [])) = Inr (ins_fees (fst st'))"
    and "list_extend (ins_relationships (fst st))
           (dict_get (res_metadata r) ''relationships'' (PList [])) = Inr (ins_relationships (fst st'))"
    and "list_extend (ins_process_flows (fst st))
           (dict_get (res_metadata r) ''process_flows'' (PList [])) = Inr (ins_process_flows (fst st'))"
    and "py_number (dict_get (res_metadata r) ''freshness_score'' (PFloat 1))
           = Inr (snd st' - snd st)"
  using assms unfolding aggregate_result_def Let_def bind_err_Inr
  by auto


lemma meta_items_eq:
  "(case py_iter (dict_get (res_metadata r) k (PList [])) of Inr xs \<Rightarrow> xs | Inl e \<Rightarrow> [])
     = meta_items (res_metadata r) k"
  by (simp add: meta_items_def)

lemma set_field_aggregate:
  assumes step: "\<And>st r st'. aggregate_result st r = Inr st' \<Longrightarrow>
      set_update (g (fst st)) (dict_get (res_metadata r) k (PList [])) = Inr (g (fst st'))"
    and run: "aggregate_results st rs = Inr st'"
  shows "py_key ` set (g (fst st'))
           = py_key ` (set (g (fst st)) \<union> (\<Union>r\<in>set rs. set (meta_items (res_metadata r) k)))
         \<and> (distinct (map py_key (g (fst st))) \<longrightarrow> distinct (map py_key (g (fst st'))))"
  using run
proof (induction rs arbitrary: st)
  case Nil
  then show ?case by simp
next
  case (Cons r rs)
  then obtain st1 where 1: "aggregate_result st r = Inr st1"
    and 2: "aggregate_results st1 rs = Inr st'"
    by (auto simp: bind_err_Inr)
  from set_update_Inr [OF step [OF 1]] Cons.IH [OF 2] show ?case
    by (simp add: meta_items_eq image_Un Un_assoc)
qed

lemma list_field_aggregate:
  assumes step: "\<And>st r st'. aggregate_result st r = Inr st' \<Longrightarrow>
      list_extend (g (fst st)) (dict_get (res_metadata r) k (PList [])) = Inr (g (fst st'))"
    and run: "aggregate_results st rs = Inr st'"
  shows "g (fst st') = g (fst st) @ concat (map (\<lambda>r. meta_items (res_metadata r) k) rs)"
  using run
proof (induction rs arbitrary: st)
  case Nil
  then show ?case by simp
next
  case (Cons r rs)
  then obtain st1 where 1: "aggregate_result st r = Inr st1"
    and 2: "aggregate_results st1 rs = Inr st'"
    by (auto simp: bind_err_Inr)
  from list_extend_Inr [OF step [OF 1]] Cons.IH [OF 2] show ?case
    by (simp add: meta_items_eq)
qed

lemma freshness_aggregate:
  assumes "aggregate_results st rs = Inr st'"
  shows "snd st' = snd st + sum_list (map (\<lambda>r. meta_freshness (res_metadata r)) rs)"
  using assms
proof (induction rs arbitrary: st)
  case Nil
  then show ?case by simp
next
  case (Cons r rs)
  then obtain st1 where 1: "aggregate_result st r = Inr st1"
    and 2: "aggregate_results st1 rs = Inr st'"
    by (auto simp: bind_err_Inr)
  from aggregate_result_Inr(7) [OF 1] have "meta_freshness (res_metadata r) = snd st1 - snd st"
    by (simp add: meta_freshness_def)
  with Cons.IH [OF 2] show ?case by simp
qed

lemma set_add_total:
  assumes "hashable x"
  shows "\<exists>S'. set_add S x = Inr S'"
  using assms by (simp add: set_add_def)

lemma set_add_all_total:
  assumes "list_all hashable xs"
  shows "\<exists>S'. set_add_all S xs = Inr S'"
  using assms
  by (induction xs arbitrary: S) (auto simp: bind_err_def set_add_def)

lemma is_str_hashable: "is_str x \<Longrightarrow> hashable x"
  by (cases x) simp_all

lemma set_update_total:
  assumes "is_str_list v"
  shows "\<exists>S'. set_update S v = Inr S'"
proof -
  from assms obtain xs where v: "v = PList xs" and "list_all is_str xs"
    by (cases v) simp_all
  then have "list_all hashable xs"
    by (simp add: list_all_iff is_str_hashable)
  from set_add_all_total [OF this] v show ?thesis
    by (simp add: set_update_def bind_err_def)
qed

lemma list_extend_total:
  assumes "is_list v"
  shows "\<exists>L'. list_extend L v = Inr L'"
  using assms by (cases v) (simp_all add: list_extend_def bind_err_def)

lemma py_number_total:
  assumes "is_number v"
  shows "\<exists>x. py_number v = Inr x"
  using assms by (cases v) simp_all

lemma aggregate_result_total:
  assumes "typed_metadata (res_metadata r)"
  shows "\<exists>st'. aggregate_result st r = Inr st'"
proof -
  let ?m = "res_metadata r"
  from assms obtain forms where 1: "set_update (ins_related_forms (fst st))
      (dict_get ?m ''form_numbers'' (PList [])) = Inr forms"
    using set_update_total unfolding typed_metadata_def by blast
  from assms obtain visas where 2: "set_update (ins_related_visas (fst st))
      (dict_get ?m ''visa_types'' (PList [])) = Inr visas"
    using set_update_total unfolding typed_metadata_def by blast
  from assms obtain reqs where 3: "set_update (ins_requirements (fst st))
      (dict_get ?m ''requirements'' (PList [])) = Inr reqs"
    using set_update_total unfolding typed_metadata_def by blast
  from assms obtain fs where 4: "set_update (ins_fees (fst st))
      (dict_get ?m ''fees'' (PList [])) = Inr fs"
    using set_update_total unfolding typed_metadata_def by blast
  from assms have "hashable (dict_get ?m ''source_url'' (PStr []))"
    unfolding typed_metadata_def by (simp add: is_str_hashable)
  then obtain srcs where 5: "set_add (ins_sources (fst st))
      (dict_get ?m ''source_url'' (PStr [])) = Inr srcs"
    using set_add_total by blast
  from assms obtain rels where 6: "list_extend (ins_relationships (fst st))
      (dict_get ?m ''relationships'' (PList [])) = Inr rels"
    using list_extend_total unfolding typed_metadata_def by blast
  from assms obtain flows where 7: "list_extend (ins_process_flows (fst st))
      (dict_get ?m ''process_flows'' (PList [])) = Inr flows"
    using list_extend_total unfolding typed_metadata_def by blast
  from assms obtain temporal where 8: "list_extend (ins_temporal_info (fst st))
      (dict_get ?m ''temporal_info'' (PList [])) = Inr temporal"
    using list_extend_total unfolding typed_metadata_def by blast
  from assms obtain f where 9: "py_number (dict_get ?m ''freshness_score'' (PFloat 1)) = Inr f"
    using py_number_total unfolding typed_metadata_def by blast
  show ?thesis
    unfolding aggregate_result_def Let_def
    by (simp add: 1 2 3 4 5 6 7 8 9 bind_err_def)
qed

lemma aggregate_results_total:
  assumes "list_all (\<lambda>r. typed_metadata (res_metadata r)) rs"
  shows "\<exists>st'. aggregate_results st rs = Inr st'"
  using assms
proof (induction rs arbitrary: st)
  case Nil
  then show ?case by simp
next
  case (Cons r rs)
  from Cons.prems have t: "typed_metadata (res_metadata r)"
    and rest: "list_all (\<lambda>r. typed_metadata (res_metadata r)) rs"
    by simp_all
  from aggregate_result_total [OF t] obtain st1 where 1: "aggregate_result st r = Inr st1"
    by blast
  from Cons.IH [OF rest] obtain st' where "aggregate_results st1 rs = Inr st'"
    by blast
  with 1 show ?case by (simp add: bind_err_def)
qed

text \<open>
  Claim C8: for every entity, \<^verbatim>\<open>get_entity_insights\<close> aggregates over the hits the search
  returned: the duplicate-free union of their related forms, visa types, requirements and
  fees, their relationships and process-flow paths, collected, and as
  \<^verbatim>\<open>average_freshness\<close> the arithmetic mean of their \<^verbatim>\<open>freshness_score\<close> values.
  The function returns whenever the metadata of the hits has the types of the record
  fields; whenever it returns, the four sets are the unions over the hits and hold no two
  equal members (equality as Python's sets see it, \<open>py_key\<close>), the two lists are the
  concatenations over the hits in their order, and the average is the sum of the freshness
  scores over the number of hits, and 0 when there is no hit.
\<close>

theorem get_entity_insights_aggregation:
  assumes "semantic_search_enhanced self (''information about '' @ entity) 10
             (entity_filter_of entity) s = Inr results"
  shows "(list_all (\<lambda>r. typed_metadata (res_metadata r)) results
            \<longrightarrow> \<not> isl (get_entity_insights self entity s))
       \<and> (\<forall>ins. get_entity_insights self entity s = Inr ins \<longrightarrow>
            py_key ` set (ins_related_forms ins)
              = py_key ` (\<Union>r\<in>set results. set (meta_items (res_metadata r) ''form_numbers''))
          \<and> distinct (map py_key (ins_related_forms ins))
          \<and> py_key ` set (ins_related_visas ins)
              = py_key ` (\<Union>r\<in>set results. set (meta_items (res_metadata r) ''visa_types''))
          \<and> distinct (map py_key (ins_related_visas ins))
          \<and> py_key ` set (ins_requirements ins)
              = py_key ` (\<Union>r\<in>set results. set (meta_items (res_metadata r) ''requirements''))
          \<and> distinct (map py_key (ins_requirements ins))
          \<and> py_key ` set (ins_fees ins)
              = py_key ` (\<Union>r\<in>set results. set (meta_items (res_metadata r) ''fees''))
          \<and> distinct (map py_key (ins_fees ins))
          \<and> ins_relationships ins = concat (map (\<lambda>r. meta_items (res_metadata r) ''relationships'') results)
          \<and> ins_process_flows ins = concat (map (\<lambda>r. meta_items (res_metadata r) ''process_flows'') results)
          \<and> ins_average_freshness ins
              = (if results = [] then 0
                 else sum_list (map (\<lambda>r. meta_freshness (res_metadata r)) results) / real (length results)))"
proof (intro conjI impI allI)
  assume typed: "list_all (\<lambda>r. typed_metadata (res_metadata r)) results"
  have "\<exists>st. aggregate_results
      (\<lparr> ins_entity = entity, ins_total_mentions = length results, ins_related_forms = [],
         ins_related_visas = [], ins_requirements = [], ins_fees = [], ins_relationships = [],
         ins_process_flows = [], ins_temporal_info = [], ins_average_freshness = 0,
         ins_sources = [], ins_dependencies = PNone, ins_complete_process_flows = PNone \<rparr>, 0)
      results = Inr st"
    by (rule aggregate_results_total [OF typed])
  then show "\<not> isl (get_entity_insights self entity s)"
    using assms by (auto simp: get_entity_insights_def bind_err_def Let_def)
next
  fix ins assume "get_entity_insights self entity s = Inr ins"
  with assms obtain st where run: "aggregate_results
      (\<lparr> ins_entity = entity, ins_total_mentions = length results, ins_related_forms = [],
         ins_related_visas = [], ins_requirements = [], ins_fees = [], ins_relationships = [],
         ins_process_flows = [], ins_temporal_info = [], ins_average_freshness = 0,
         ins_sources = [], ins_dependencies = PNone, ins_complete_process_flows = PNone \<rparr>, 0)
      results = Inr st"
    and ins: "ins = (fst st)
               \<lparr> ins_average_freshness :=
                   (if results \<noteq> [] then snd st / real (length results) else 0),
                 ins_dependencies := get_entity_dependencies self entity,
                 ins_complete_process_flows := get_process_flow self entity 3 \<rparr>"
    by (auto simp: get_entity_insights_def bind_err_Inr Let_def)
  from set_field_aggregate [of ins_related_forms "''form_numbers''", OF aggregate_result_Inr(1) run]
  show "py_key ` set (ins_related_forms ins)
              = py_key ` (\<Union>r\<in>set results. set (meta_items (res_metadata r) ''form_numbers''))"
    and "distinct (map py_key (ins_related_forms ins))"
    by (simp_all add: ins)
  from set_field_aggregate [of ins_related_visas "''visa_types''", OF aggregate_result_Inr(2) run]
  show "py_key ` set (ins_related_visas ins)
              = py_key ` (\<Union>r\<in>set results. set (meta_items (res_metadata r) ''visa_types''))"
    and "distinct (map py_key (ins_related_visas ins))"
    by (simp_all add: ins)
  from set_field_aggregate [of ins_requirements "''requirements''", OF aggregate_result_Inr(3) run]
  show "py_key ` set (ins_requirements ins)
              = py_key ` (\<Union>r\<in>set results. set (meta_items (res_metadata r) ''requirements''))"
    and "distinct (map py_key (ins_requirements ins))"
    by (simp_all add: ins)
  from set_field_aggregate [of ins_fees "''fees''", OF aggregate_result_Inr(4) run]
  show "py_key ` set (ins_fees ins)
              = py_key ` (\<Union>r\<in>set results. set (meta_items (res_metadata r) ''fees''))"
    and "distinct (map py_key (ins_fees ins))"
    by (simp_all add: ins)
  from list_field_aggregate [of ins_relationships "''relationships''", OF aggregate_result_Inr(5) run]
  show "ins_relationships ins = concat (map (\<lambda>r. meta_items (res_metadata r) ''relationships'') results)"
    by (simp add: ins)
  from list_field_aggregate [of ins_process_flows "''process_flows''", OF aggregate_result_Inr(6) run]
  show "ins_process_flows ins = concat (map (\<lambda>r. meta_items (res_metadata r) ''process_flows'') results)"
    by (simp add: ins)
  from freshness_aggregate [OF run]
  show "ins_average_freshness ins
              = (if results = [] then 0
                 else sum_list (map (\<lambda>r. meta_freshness (res_metadata r)) results) / real (length results))"
    by (simp add: ins)
qed


lemmas forms_defs = semantic_search_enhanced_def search_try_def generate_embedding_def
  demo_rag_def demo_create_def
  ProductionRAGConfig_init_def memory_search_def unfiltered_search_def forms_store_def
  filter_holds_def dot_def payload_dict_def asdict_def demo_chunk_def enhanced_result_def
  dict_get_def str_list_def opt_str_def Let_def

lemma forms_results:
  "map res_metadata (projr (semantic_search_enhanced (demo_rag\<lparr>client_search := unfiltered_search\<rparr>)
            (''information about '' @ ''I-130'') 10 (entity_filter_of ''I-130'') forms_store))
   = [[(''document_title'', PStr ''Family petitions''),
    (''source_url'', PStr ''https://a.example/i-130''),
    (''chunk_type'', PStr ''narrative''),
    (''section_title'', PStr ''Overview''),
    (''form_numbers'', PList [PStr ''I-130'', PStr ''I-485'']),
    (''visa_types'', PList []), (''requirements'', PList []),
    (''fees'', PList [PStr ''$535'']), (''relationships'', PList []),
    (''process_flows'', PList []), (''temporal_info'', PList []),
    (''is_current'', PBool True), (''freshness_score'', PFloat (1/2)),
    (''confidence_score'', PFloat 1)],
    [(''document_title'', PStr ''Fees''),
    (''source_url'', PStr ''https://a.example/fees''),
    (''chunk_type'', PStr ''narrative''),
    (''section_title'', PStr ''Overview''),
    (''form_numbers'', PList [PStr ''I-130'']),
    (''visa_types'', PList []), (''requirements'', PList []),
    (''fees'', PList [PStr ''$535'']), (''relationships'', PList []),
    (''process_flows'', PList []), (''temporal_info'', PList []),
    (''is_current'', PBool True), (''freshness_score'', PFloat 1),
    (''confidence_score'', PFloat 1)]]"
  by (simp add: forms_defs)


theorem get_entity_insights_aggregation_witness:
  "length (projr (semantic_search_enhanced (demo_rag\<lparr>client_search := unfiltered_search\<rparr>)
            (''information about '' @ ''I-130'') 10 (entity_filter_of ''I-130'') forms_store)) = 2
   \<and> list_all (\<lambda>r. typed_metadata (res_metadata r))
        (projr (semantic_search_enhanced (demo_rag\<lparr>client_search := unfiltered_search\<rparr>)
            (''information about '' @ ''I-130'') 10 (entity_filter_of ''I-130'') forms_store))
   \<and> \<not> isl (get_entity_insights (demo_rag\<lparr>client_search := unfiltered_search\<rparr>) ''I-130''
               forms_store)
   \<and> py_key ` set (ins_related_forms (projr
         (get_entity_insights (demo_rag\<lparr>client_search := unfiltered_search\<rparr>) ''I-130''
            forms_store)))
       = {PStr ''I-130'', PStr ''I-485''}
   \<and> ins_average_freshness (projr
         (get_entity_insights (demo_rag\<lparr>client_search := unfiltered_search\<rparr>) ''I-130''
            forms_store))
       = 3 / 4"
proof -
  let ?rag = "demo_rag\<lparr>client_search := unfiltered_search\<rparr>"
  let ?R = "projr (semantic_search_enhanced ?rag (''information about '' @ ''I-130'') 10
                     (entity_filter_of ''I-130'') forms_store)"
  let ?G = "get_entity_insights ?rag ''I-130'' forms_store"
  have h: "semantic_search_enhanced ?rag (''information about '' @ ''I-130'') 10
             (entity_filter_of ''I-130'') forms_store = Inr ?R"
    by (simp add: semantic_search_enhanced_Inr)
  note T = get_entity_insights_aggregation [OF h]
  have len: "length ?R = 2"
    using arg_cong [OF forms_results, of length] by simp
  then have ne: "?R \<noteq> []" by auto
  have typed: "list_all (\<lambda>r. typed_metadata (res_metadata r)) ?R"
  proof -
    have "list_all typed_metadata (map res_metadata ?R)"
      unfolding forms_results by (simp add: typed_metadata_def dict_get_def)
    then show ?thesis by (simp add: list_all_iff)
  qed
  note nisl = T [THEN conjunct1, rule_format, OF typed]
  from nisl have G: "?G = Inr (projr ?G)" by (rule sum.collapse(2) [symmetric])
  have forms: "(\<Union>r\<in>set ?R. set (meta_items (res_metadata r) ''form_numbers''))
                 = {PStr ''I-130'', PStr ''I-485''}"
  proof -
    have "(\<Union>r\<in>set ?R. set (meta_items (res_metadata r) ''form_numbers''))
            = (\<Union>m\<in>set (map res_metadata ?R). set (meta_items m ''form_numbers''))"
      by simp
    also have "\<dots> = {PStr ''I-130'', PStr ''I-485''}"
      unfolding forms_results by (auto simp: meta_items_def dict_get_def)
    finally show ?thesis .
  qed
  have fresh: "sum_list (map (\<lambda>r. meta_freshness (res_metadata r)) ?R) = 3 / 2"
  proof -
    have "map (\<lambda>r. meta_freshness (res_metadata r)) ?R = map meta_freshness (map res_metadata ?R)"
      by simp
    also have "\<dots> = [1 / 2, 1]"
      unfolding forms_results by (simp add: meta_freshness_def dict_get_def)
    finally show ?thesis by simp
  qed
  note B = T [THEN conjunct2, rule_format, OF G]
  from B have "py_key ` set (ins_related_forms (projr ?G))
                  = py_key ` (\<Union>r\<in>set ?R. set (meta_items (res_metadata r) ''form_numbers''))"
    by (elim conjE)
  then have F: "py_key ` set (ins_related_forms (projr ?G)) = {PStr ''I-130'', PStr ''I-485''}"
    unfolding forms by simp
  from B have "ins_average_freshness (projr ?G)
          = (if ?R = [] then 0
             else sum_list (map (\<lambda>r. meta_freshness (res_metadata r)) ?R) / real (length ?R))"
    by (elim conjE)
  then have A: "ins_average_freshness (projr ?G) = 3 / 4"
    unfolding fresh len using ne by simp
  from len typed nisl F A show ?thesis by (simp only: simp_thms)
qed

end
